theory Spec2Isabelle
  imports Complex_Main
begin

section \<open>Forecast component (TheWeather.vue): data model\<close>

text \<open>
  The interfaces \<open>WeatherEntry\<close>, \<open>DailyWeather\<close> and \<open>LocationInfo\<close> of the component.
  Numbers that are only carried along (temperature, humidity, wind speed, precipitation
  probability) are reals; \<open>dt\<close>, the Unix time in seconds, is an integer.
\<close>

record MainInfo =
  temp :: real
  humidity :: real

record Condition =
  cond_main :: string
  description :: string
  icon :: string

record Wind =
  speed :: real

record WeatherEntry =
  dt :: int
  dt_txt :: string
  main :: MainInfo
  weather :: "Condition list"
  wind :: "Wind option"
  pop :: "real option"

record DailyWeather =
  date :: string
  weatherEntries :: "WeatherEntry list"

record LocationInfo =
  name :: string
  country :: string

text \<open>
  The parsed response body \<open>data\<close> is untyped in the source. The code reads three of its
  properties: \<open>data.list\<close>, \<open>data.city\<close> (with \<open>name\<close> and \<open>country\<close>) and
  \<open>data.message\<close>. A property that is missing is \<open>None\<close>; a list that is there is an array
  of entries (possibly empty, which is truthy), a message that is there is a string. The
  JSON value \<open>null\<close> is kept apart, because reading a property of it throws; any other body
  without these properties behaves as the object that has none of them.
\<close>

record City =
  city_name :: string
  city_country :: string

record Payload =
  list_p :: "WeatherEntry list option"
  city_p :: "City option"
  message_p :: "string option"

datatype data = Null | Obj Payload

record CacheEntry =
  timestamp :: int
  cached :: data

text \<open>
  The reactive state of the component. \<open>weatherCache\<close> is a JavaScript \<open>Map\<close>: an
  association list in insertion order, with at most one pair for each key.
\<close>

record WeatherState =
  locationInfoData :: "LocationInfo option"
  completeWeatherData :: "WeatherEntry list"
  dailyWeatherData :: "DailyWeather list"
  isLoading :: bool
  error :: "string option"
  lastFetchedCity :: "string option"
  weatherCache :: "(string \<times> CacheEntry) list"

text \<open>
  What the host supplies: \<open>Date.prototype.toDateString\<close> in the local time zone (argument:
  a valid time value in milliseconds), \<open>Intl.DisplayNames(['de'], {type: 'region'}).of\<close>
  (which throws a RangeError, \<open>Inl\<close> of its message, on a malformed code and may return
  \<open>undefined\<close>), and the message of the TypeError raised by reading a property of \<open>null\<close>.
\<close>

record Env =
  toDateStringLocal :: "int \<Rightarrow> string"
  regionDisplayName :: "string \<Rightarrow> string + string option"
  nullPropertyMessage :: string

subsection \<open>Dates\<close>

text \<open>
  A \<open>Date\<close> holds a time value in milliseconds, or NaN (\<open>None\<close>, the invalid date) when
  the argument is beyond 8.64e15 in absolute value.
\<close>

type_synonym Date = "int option"

definition newDate :: "int \<Rightarrow> Date" where
  "newDate ms = (if \<bar>ms\<bar> \<le> 8640000000000000 then Some ms else None)"

definition getUTCHours :: "Date \<Rightarrow> int option" where
  "getUTCHours d = (case d of None \<Rightarrow> None | Some t \<Rightarrow> Some ((t div 3600000) mod 24))"

definition toDateString :: "Env \<Rightarrow> Date \<Rightarrow> string" where
  "toDateString env d = (case d of None \<Rightarrow> ''Invalid Date'' | Some t \<Rightarrow> toDateStringLocal env t)"

definition targetHours :: "int list" where
  "targetHours = [6, 12, 18, 21]"

text \<open>\<open>Array.prototype.includes\<close> on a list of numbers; NaN is in none of them.\<close>

definition includes_num :: "int list \<Rightarrow> int option \<Rightarrow> bool" where
  "includes_num xs v = (case v of None \<Rightarrow> False | Some h \<Rightarrow> h \<in> set xs)"

definition CACHE_DURATION :: int where
  "CACHE_DURATION = 10 * 60 * 1000"

subsection \<open>The map operations used on the cache\<close>

fun mapSet :: "('k \<times> 'v) list \<Rightarrow> 'k \<Rightarrow> 'v \<Rightarrow> ('k \<times> 'v) list" where
  "mapSet [] k v = [(k, v)]"
| "mapSet ((k', v') # m) k v = (if k' = k then (k, v) # m else (k', v') # mapSet m k v)"

definition newMap :: "('k \<times> 'v) list \<Rightarrow> ('k \<times> 'v) list" where
  "newMap entries = foldl (\<lambda>m (k, v). mapSet m k v) [] entries"

subsection \<open>processWeatherData\<close>

definition msgInvalidData :: string where
  "msgInvalidData = ''Ung'' @ [CHR 0xFC] @ ''ltige Wetterdaten erhalten''"

definition resetData :: "WeatherState \<Rightarrow> WeatherState" where
  "resetData s = s\<lparr>locationInfoData := None, dailyWeatherData := [], completeWeatherData := []\<rparr>"

text \<open>
  The accumulator of the \<open>reduce\<close> is a plain object whose keys are date strings, none of
  them an array index or a property of \<open>Object.prototype\<close>, so \<open>Object.entries\<close> lists them
  in insertion order: an association list. \<open>push\<close> appends to the array stored under a
  key.
\<close>

type_synonym groups = "(string \<times> WeatherEntry list) list"

definition push :: "groups \<Rightarrow> string \<Rightarrow> WeatherEntry \<Rightarrow> groups" where
  "push g k e = map (\<lambda>(k', es). if k' = k then (k', es @ [e]) else (k', es)) g"

definition reducer :: "Env \<Rightarrow> groups \<Rightarrow> WeatherEntry \<Rightarrow> groups" where
  "reducer env groups entry =
     (let d = newDate (dt entry * 1000);
          dateString = toDateString env d;
          groups1 = (if map_of groups dateString = None then groups @ [(dateString, [])] else groups)
      in if includes_num targetHours (getUTCHours d) then push groups1 dateString entry else groups1)"

definition invalidData :: "WeatherState \<Rightarrow> WeatherState" where
  "invalidData s = resetData (s\<lparr>error := Some msgInvalidData\<rparr>)"

text \<open>
  The second component of the result is the message of an exception that escapes the
  function (the RangeError of \<open>Intl.DisplayNames.of\<close>); the state is then the one reached
  when it was thrown.
\<close>

definition processValid :: "Env \<Rightarrow> WeatherEntry list \<Rightarrow> City \<Rightarrow> WeatherState \<Rightarrow> WeatherState \<times> string option" where
  "processValid env l c s =
     (let s1 = s\<lparr>completeWeatherData := l\<rparr>;
          preparedData = foldl (reducer env) [] l;
          s2 = s1\<lparr>dailyWeatherData :=
                  map (\<lambda>(d, es). \<lparr>date = d, weatherEntries = es\<rparr>) preparedData\<rparr>
      in case regionDisplayName env (city_country c) of
           Inl msg \<Rightarrow> (s2, Some msg)
         | Inr r \<Rightarrow>
             (s2\<lparr>locationInfoData := Some \<lparr>name = city_name c,
                    country = (case r of None \<Rightarrow> city_country c
                               | Some n \<Rightarrow> if n \<noteq> [] then n else city_country c)\<rparr>\<rparr>, None))"

definition processWeatherData :: "Env \<Rightarrow> data \<Rightarrow> WeatherState \<Rightarrow> WeatherState \<times> string option" where
  "processWeatherData env d s =
     (case d of
        Null \<Rightarrow> (invalidData s, None)
      | Obj p \<Rightarrow>
          (case list_p p of
             None \<Rightarrow> (invalidData s, None)
           | Some l \<Rightarrow>
               (case city_p p of
                  None \<Rightarrow> (invalidData s, None)
                | Some c \<Rightarrow> processValid env l c s)))"

text \<open>The computed properties.\<close>

definition currentWeather :: "WeatherState \<Rightarrow> WeatherEntry option" where
  "currentWeather s = (case completeWeatherData s of [] \<Rightarrow> None | e # _ \<Rightarrow> Some e)"

definition todayBlocks :: "WeatherState \<Rightarrow> WeatherEntry list" where
  "todayBlocks s = (case dailyWeatherData s of [] \<Rightarrow> [] | b # _ \<Rightarrow> weatherEntries b)"

definition nextDays :: "WeatherState \<Rightarrow> DailyWeather list" where
  "nextDays s = drop 1 (dailyWeatherData s)"

subsection \<open>fetchWeatherForecast\<close>

text \<open>
  What the two awaits of the function deliver: \<open>fetch\<close> rejects with a thrown value
  (\<open>Rejected\<close>); or the response arrives with its \<open>ok\<close> flag and \<open>res.json()\<close> rejects
  because the body does not parse (\<open>Unparsed\<close>); or the response arrives with its \<open>ok\<close>
  flag and its parsed body (\<open>Resolved\<close>).
\<close>

datatype thrown = ErrorObj string | OtherValue

datatype response = Rejected thrown | Unparsed bool thrown | Resolved bool data

definition msgFetchFailed :: string where
  "msgFetchFailed = ''Fehler beim Abrufen der Wetterdaten''"

definition msgUnknown :: string where
  "msgUnknown = ''Unbekannter Fehler beim Laden der Daten''"

text \<open>
  The function runs in two parts. \<open>fetchStart\<close> is the synchronous part up to the first
  await, at clock reading \<open>now\<close>: it returns at once (\<open>Finished\<close>), or lets an exception
  of the cached reprocessing escape (\<open>Escaped\<close>), or has issued the network request
  (\<open>Requested\<close>). \<open>fetchFinish\<close> is the rest, run when the request settles, on the state
  the component has by then.
\<close>

datatype started = Finished WeatherState | Escaped WeatherState string | Requested WeatherState

definition requested :: "string \<Rightarrow> WeatherState \<Rightarrow> WeatherState" where
  "requested cityName s = s\<lparr>error := None, isLoading := True, lastFetchedCity := Some cityName\<rparr>"

definition fetchStart :: "Env \<Rightarrow> int \<Rightarrow> string \<Rightarrow> WeatherState \<Rightarrow> started" where
  "fetchStart env now cityName s =
     (if cityName = [] then Finished s
      else if Some cityName = lastFetchedCity s then Finished s
      else
        (case map_of (weatherCache s) cityName of
           None \<Rightarrow> Requested (requested cityName s)
         | Some cachedData \<Rightarrow>
             if now - timestamp cachedData < CACHE_DURATION then
               (case processWeatherData env (cached cachedData) s of
                  (s', None) \<Rightarrow> Finished s'
                | (s', Some msg) \<Rightarrow> Escaped s' msg)
             else Requested (requested cityName s)))"

text \<open>The message of the error thrown for a response that is not ok.\<close>

definition notOkError :: "Env \<Rightarrow> data \<Rightarrow> thrown" where
  "notOkError env d =
     (case d of
        Null \<Rightarrow> ErrorObj (nullPropertyMessage env)
      | Obj p \<Rightarrow>
          (case message_p p of
             None \<Rightarrow> ErrorObj msgFetchFailed
           | Some m \<Rightarrow> ErrorObj (if m \<noteq> [] then m else msgFetchFailed)))"

text \<open>The \<open>try\<close> block after the awaits: the state it reaches and what it throws, if anything.\<close>

definition tryBlock :: "Env \<Rightarrow> string \<Rightarrow> response \<Rightarrow> int \<Rightarrow> WeatherState \<Rightarrow> WeatherState \<times> thrown option" where
  "tryBlock env cityName resp now s =
     (case resp of
        Rejected t \<Rightarrow> (s, Some t)
      | Unparsed ok t \<Rightarrow> (s, Some t)
      | Resolved ok d \<Rightarrow>
          if \<not> ok then (s, Some (notOkError env d))
          else
            (case processWeatherData env d
                    (s\<lparr>weatherCache :=
                        mapSet (weatherCache s) cityName \<lparr>timestamp = now, cached = d\<rparr>\<rparr>) of
               (s', None) \<Rightarrow> (s', None)
             | (s', Some msg) \<Rightarrow> (s', Some (ErrorObj msg))))"

definition catchBlock :: "thrown \<Rightarrow> WeatherState \<Rightarrow> WeatherState" where
  "catchBlock err s =
     resetData (s\<lparr>error := Some (case err of ErrorObj m \<Rightarrow> m | OtherValue \<Rightarrow> msgUnknown)\<rparr>)"

definition fetchFinish :: "Env \<Rightarrow> string \<Rightarrow> response \<Rightarrow> int \<Rightarrow> WeatherState \<Rightarrow> WeatherState" where
  "fetchFinish env cityName resp now s =
     (case tryBlock env cityName resp now s of
        (s', None) \<Rightarrow> s'\<lparr>isLoading := False\<rparr>
      | (s', Some err) \<Rightarrow> (catchBlock err s')\<lparr>isLoading := False\<rparr>)"

text \<open>
  One call run to its end with nothing in between: the state it leaves and whether it
  issued a network request. \<open>now\<close> is the clock at the cache check, \<open>now'\<close> the clock when
  the response is stored.
\<close>

definition fetchWeatherForecast ::
  "Env \<Rightarrow> int \<Rightarrow> response \<Rightarrow> int \<Rightarrow> string \<Rightarrow> WeatherState \<Rightarrow> WeatherState \<times> bool" where
  "fetchWeatherForecast env now resp now' cityName s =
     (case fetchStart env now cityName s of
        Finished s' \<Rightarrow> (s', False)
      | Escaped s' msg \<Rightarrow> (s', False)
      | Requested s' \<Rightarrow> (fetchFinish env cityName resp now' s', True))"

subsection \<open>cleanupCache\<close>

text \<open>
  \<open>Array.prototype.sort\<close> is stable; with the comparator \<open>b.timestamp - a.timestamp\<close> it
  orders by falling timestamp, which is the stable sort on the negated timestamp.
\<close>

definition cleanupCache :: "WeatherState \<Rightarrow> WeatherState" where
  "cleanupCache s =
     (if length (weatherCache s) > 10 then
        s\<lparr>weatherCache :=
            newMap (take 5 (sort_key (\<lambda>(k, c). - timestamp c) (weatherCache s)))\<rparr>
      else s)"

definition initialState :: WeatherState where
  "initialState = \<lparr>locationInfoData = None, completeWeatherData = [], dailyWeatherData = [],
     isLoading = False, error = None, lastFetchedCity = None, weatherCache = []\<rparr>"

section \<open>Map component: reverse geocoding and the click handler\<close>

text \<open>
  The reverse-geocoding response: \<open>fetch\<close> or \<open>response.json()\<close> rejects, or the body is
  parsed. The code reads \<open>data.results?.[0]?.components\<close> and, of the components,
  \<open>_normalized_city\<close> and \<open>city\<close>; a missing or null property is \<open>None\<close>.
\<close>

record Components =
  normalized_city :: "string option"
  city :: "string option"

record GeoResult =
  components :: "Components option"

datatype geo_data = GeoNull | GeoObj "GeoResult list option"

datatype geo_response = GeoRejected | GeoResolved geo_data

text \<open>The operators \<open>||\<close> and \<open>??\<close> on optional strings (the empty string is falsy).\<close>

definition or_else :: "string option \<Rightarrow> string option \<Rightarrow> string option" where
  "or_else a b = (case a of None \<Rightarrow> b | Some x \<Rightarrow> if x \<noteq> [] then a else b)"

definition nullish :: "string option \<Rightarrow> string \<Rightarrow> string" where
  "nullish a d = (case a of None \<Rightarrow> d | Some x \<Rightarrow> x)"

definition emptyComponents :: Components where
  "emptyComponents = \<lparr>normalized_city = None, city = None\<rparr>"

definition firstComponents :: "GeoResult list option \<Rightarrow> Components" where
  "firstComponents results =
     (case results of
        None \<Rightarrow> emptyComponents
      | Some [] \<Rightarrow> emptyComponents
      | Some (r # _) \<Rightarrow> (case components r of None \<Rightarrow> emptyComponents | Some c \<Rightarrow> c))"

text \<open>
  \<open>geocode\<close> is the remote service, from the query \<open>q\<close> to what the request delivers.
\<close>

definition getCityName :: "(string \<Rightarrow> geo_response) \<Rightarrow> string \<Rightarrow> string \<Rightarrow> string" where
  "getCityName geocode lat lon =
     (case geocode (lat @ '','' @ lon) of
        GeoRejected \<Rightarrow> ''error fetching city name''
      | GeoResolved GeoNull \<Rightarrow> ''error fetching city name''
      | GeoResolved (GeoObj results) \<Rightarrow>
          (let c = firstComponents results
           in nullish (or_else (normalized_city c) (city c)) ''n.V.''))"

text \<open>
  The click event. \<open>event.detail?.mapPoint\<close> may be missing, and destructuring it then
  throws a TypeError. A coordinate is a number or null; \<open>toFixed3\<close> is the host's
  \<open>Number.prototype.toFixed(3)\<close>.
\<close>

record SpatialReference =
  isWebMercator :: bool
  wkid :: int

record MapPoint =
  latitude :: "real option"
  longitude :: "real option"
  spatialReference :: SpatialReference

record MapState =
  locationLatitude :: "string option"
  locationLongitude :: "string option"
  cityName :: "string option"

datatype console = Warn string SpatialReference

datatype click_error = TypeError

definition truthy_num :: "real option \<Rightarrow> real option" where
  "truthy_num x = (case x of None \<Rightarrow> None | Some v \<Rightarrow> if v = 0 then None else Some v)"

definition onViewClick ::
  "(real \<Rightarrow> string) \<Rightarrow> MapPoint option \<Rightarrow> MapState \<Rightarrow> click_error + MapState \<times> console list" where
  "onViewClick toFixed3 mapPoint s =
     (case mapPoint of
        None \<Rightarrow> Inl TypeError
      | Some p \<Rightarrow>
          if \<not> isWebMercator (spatialReference p) then
            Inr (s, [Warn ''coordinates spatial reference not WGS84:'' (spatialReference p)])
          else
            (case (truthy_num (latitude p), truthy_num (longitude p)) of
               (Some la, Some lo) \<Rightarrow>
                 Inr (s\<lparr>locationLatitude := Some (toFixed3 la),
                        locationLongitude := Some (toFixed3 lo)\<rparr>, [])
             | _ \<Rightarrow>
                 Inr (s\<lparr>locationLatitude := Some ''n.V.'',
                        locationLongitude := Some ''n.V.''\<rparr>, [])))"

text \<open>The callback of \<open>watch([locationLatitude, locationLongitude], ...)\<close>.\<close>

definition truthy :: "string option \<Rightarrow> string option" where
  "truthy a = (case a of None \<Rightarrow> None | Some x \<Rightarrow> if x \<noteq> [] then Some x else None)"

definition coordinatesWatcher :: "(string \<Rightarrow> geo_response) \<Rightarrow> MapState \<Rightarrow> MapState" where
  "coordinatesWatcher geocode s =
     (case (truthy (locationLatitude s), truthy (locationLongitude s)) of
        (Some lat, Some lon) \<Rightarrow> s\<lparr>cityName := Some (getCityName geocode lat lon)\<rparr>
      | _ \<Rightarrow> s\<lparr>cityName := None\<rparr>)"

text \<open>
  A click followed by the reactive flush: the watcher runs only when one of the two
  watched values has changed.
\<close>

definition clickEvent ::
  "(real \<Rightarrow> string) \<Rightarrow> (string \<Rightarrow> geo_response) \<Rightarrow> MapPoint option \<Rightarrow> MapState
     \<Rightarrow> click_error + MapState \<times> console list" where
  "clickEvent toFixed3 geocode mapPoint s =
     (case onViewClick toFixed3 mapPoint s of
        Inl e \<Rightarrow> Inl e
      | Inr (s', out) \<Rightarrow>
          if locationLatitude s' \<noteq> locationLatitude s \<or> locationLongitude s' \<noteq> locationLongitude s
          then Inr (coordinatesWatcher geocode s', out)
          else Inr (s', out))"

section \<open>Notions used in the statements\<close>

text \<open>
  The key under which the reducer files an entry, and the test it applies before pushing
  it: both as the reducer computes them.
\<close>

definition dateKey :: "Env \<Rightarrow> WeatherEntry \<Rightarrow> string" where
  "dateKey env e = toDateString env (newDate (dt e * 1000))"

definition hourOk :: "WeatherEntry \<Rightarrow> bool" where
  "hourOk e = includes_num targetHours (getUTCHours (newDate (dt e * 1000)))"

text \<open>The array stored under a key of the accumulator (empty when the key is missing).\<close>

definition content :: "groups \<Rightarrow> string \<Rightarrow> WeatherEntry list" where
  "content g k = (case map_of g k of None \<Rightarrow> [] | Some es \<Rightarrow> es)"

text \<open>The value assigned to \<open>dailyWeatherData\<close> for a list of entries.\<close>

definition buckets :: "Env \<Rightarrow> WeatherEntry list \<Rightarrow> DailyWeather list" where
  "buckets env l = map (\<lambda>(d, es). \<lparr>date = d, weatherEntries = es\<rparr>) (foldl (reducer env) [] l)"

text \<open>The three display collections are empty.\<close>

definition collectionsCleared :: "WeatherState \<Rightarrow> bool" where
  "collectionsCleared s \<longleftrightarrow>
     locationInfoData s = None \<and> completeWeatherData s = [] \<and> dailyWeatherData s = []"

text \<open>The payloads that the shape check of \<open>processWeatherData\<close> rejects.\<close>

definition invalidShape :: "data \<Rightarrow> bool" where
  "invalidShape d = (case d of Null \<Rightarrow> True | Obj p \<Rightarrow> list_p p = None \<or> city_p p = None)"

subsection \<open>A concrete host and payload\<close>

text \<open>
  A host whose local time zone is UTC, as far as the first days of 1970 go, with German
  region names; and a forecast with entries at the UTC hours 3, 6, 9, 12, 15, 18, 21 of
  the first day and at hour 0 of the second.
\<close>

definition exampleDateString :: "int \<Rightarrow> string" where
  "exampleDateString t =
     (if t div 86400000 = 0 then ''Thu Jan 01 1970''
      else if t div 86400000 = 1 then ''Fri Jan 02 1970''
      else ''Sat Jan 03 1970'')"

definition exampleEnv :: Env where
  "exampleEnv = \<lparr>toDateStringLocal = exampleDateString,
     regionDisplayName = (\<lambda>c. if c = ''DE'' then Inr (Some ''Deutschland'') else Inr (Some c)),
     nullPropertyMessage = ''Cannot read properties of null (reading 'message')''\<rparr>"

definition entryAt :: "int \<Rightarrow> WeatherEntry" where
  "entryAt t = \<lparr>dt = t, dt_txt = [], main = \<lparr>temp = 0, humidity = 0\<rparr>, weather = [],
     wind = None, pop = None\<rparr>"

definition exampleList :: "WeatherEntry list" where
  "exampleList = map entryAt [10800, 21600, 32400, 43200, 54000, 64800, 75600, 86400]"

definition berlin :: City where
  "berlin = \<lparr>city_name = ''Berlin'', city_country = ''DE''\<rparr>"

definition examplePayload :: Payload where
  "examplePayload = \<lparr>list_p = Some exampleList, city_p = Some berlin, message_p = None\<rparr>"

text \<open>
  Responses and states for the examples of the cache: a valid and an invalid body with a
  success status, an error body, and a session that asks for Paris (stored at clock 5)
  and then for Berlin (stored at clock 1005), each answered over the network.
\<close>

definition okResponse :: response where
  "okResponse = Resolved True (Obj examplePayload)"

definition invalidPayload :: data where
  "invalidPayload = Obj \<lparr>list_p = None, city_p = None, message_p = None\<rparr>"

definition notFoundPayload :: Payload where
  "notFoundPayload = \<lparr>list_p = None, city_p = None, message_p = Some ''city not found''\<rparr>"

definition afterParis :: "response \<Rightarrow> WeatherState" where
  "afterParis r1 = fst (fetchWeatherForecast exampleEnv 0 r1 5 ''Paris'' initialState)"

definition twoCities :: "response \<Rightarrow> response \<Rightarrow> WeatherState" where
  "twoCities r1 r2 = fst (fetchWeatherForecast exampleEnv 1000 r2 1005 ''Berlin'' (afterParis r1))"

text \<open>
  The session in which Berlin's body was invalid, after Paris has been asked for again at
  clock 2000 and served from the cache.
\<close>

definition staleState :: WeatherState where
  "staleState = fst (fetchWeatherForecast exampleEnv 2000 okResponse 2005 ''Paris''
     (twoCities okResponse (Resolved True invalidPayload)))"

text \<open>A cache of eleven cities, listed in the order in which they were first stored.\<close>

definition exampleCache :: "(string \<times> CacheEntry) list" where
  "exampleCache = map (\<lambda>(k, t). (k, \<lparr>timestamp = t, cached = Null\<rparr>))
     [(''Aachen'', 30), (''Bonn'', 10), (''Celle'', 110), (''Essen'', 50), (''Fulda'', 20),
      (''Gotha'', 90), (''Halle'', 40), (''Jena'', 100), (''Kiel'', 60), (''Lahr'', 80),
      (''Mainz'', 70)]"

text \<open>
  A geocoder that knows two places and answers with empty components elsewhere; a
  rendering of \<open>toFixed(3)\<close> for the two coordinates used; a clicked point in geographic
  coordinates (WKID 4326, not Web Mercator); and what the map component shows before the
  click.
\<close>

definition exampleGeocode :: "string \<Rightarrow> geo_response" where
  "exampleGeocode q =
     (if q = ''52.520,13.405'' then
        GeoResolved (GeoObj (Some [\<lparr>components =
          Some \<lparr>normalized_city = Some ''Berlin'', city = Some ''Berlin Mitte''\<rparr>\<rparr>]))
      else if q = ''50.000,8.000'' then
        GeoResolved (GeoObj (Some [\<lparr>components =
          Some \<lparr>normalized_city = None, city = Some ''Mainz''\<rparr>\<rparr>]))
      else GeoResolved (GeoObj (Some [\<lparr>components = Some emptyComponents\<rparr>])))"

definition exampleFixed :: "real \<Rightarrow> string" where
  "exampleFixed x = (if x = 52.52 then ''52.520'' else if x = 13.405 then ''13.405'' else ''0.000'')"

definition geographicPoint :: MapPoint where
  "geographicPoint = \<lparr>latitude = Some 52.52, longitude = Some 13.405,
     spatialReference = \<lparr>isWebMercator = False, wkid = 4326\<rparr>\<rparr>"

definition shownState :: MapState where
  "shownState = \<lparr>locationLatitude = Some ''50.000'', locationLongitude = Some ''8.000'',
     cityName = Some ''Mainz''\<rparr>"

text \<open>A response with a success status whose body is not JSON.\<close>

definition unparsedOk :: response where
  "unparsedOk = Unparsed True (ErrorObj ''Unexpected end of JSON input'')"

text \<open>
  A geocoder for the edges: a city field that is the empty string, a normalized name that
  is the empty string, no result, no result list, a body that is null, and a request that
  fails.
\<close>

definition edgeGeocode :: "string \<Rightarrow> geo_response" where
  "edgeGeocode q =
     (if q = ''1.000,1.000'' then
        GeoResolved (GeoObj (Some [\<lparr>components =
          Some \<lparr>normalized_city = None, city = Some []\<rparr>\<rparr>]))
      else if q = ''2.000,2.000'' then
        GeoResolved (GeoObj (Some [\<lparr>components =
          Some \<lparr>normalized_city = Some [], city = None\<rparr>\<rparr>]))
      else if q = ''3.000,3.000'' then GeoResolved (GeoObj (Some []))
      else if q = ''4.000,4.000'' then GeoResolved (GeoObj None)
      else if q = ''5.000,5.000'' then GeoResolved GeoNull
      else GeoRejected)"

section \<open>Regrouping: properties of the reducer\<close>

lemma push_keys: "map fst (push g k e) = map fst g"
  by (induction g) (auto simp: push_def)

lemma map_of_push:
  "map_of (push g k e) k' =
     (if k' = k then map_option (\<lambda>es. es @ [e]) (map_of g k) else map_of g k')"
  by (induction g) (auto simp: push_def)

lemma reducer_keys:
  "map fst (reducer env g e) =
     (if dateKey env e \<in> set (map fst g) then map fst g else map fst g @ [dateKey env e])"
  by (auto simp: reducer_def Let_def push_keys dateKey_def map_of_eq_None_iff)

lemma reducer_content:
  "content (reducer env g e) k =
     content g k @ (if dateKey env e = k \<and> hourOk e then [e] else [])"
  by (auto simp: reducer_def Let_def content_def map_of_push dateKey_def hourOk_def
      split: option.splits)

lemma reducer_keys_set: "fst ` set (reducer env g e) = insert (dateKey env e) (fst ` set g)"
proof -
  have "set (map fst (reducer env g e)) = insert (dateKey env e) (set (map fst g))"
    unfolding reducer_keys by auto
  then show ?thesis by simp
qed

lemma fold_keys_set:
  "fst ` set (foldl (reducer env) g xs) = fst ` set g \<union> dateKey env ` set xs"
  by (induction xs arbitrary: g) (simp_all add: reducer_keys_set)

lemma fold_keys_distinct:
  "distinct (map fst g) \<Longrightarrow> distinct (map fst (foldl (reducer env) g xs))"
  by (induction xs arbitrary: g) (auto simp: reducer_keys)

lemma fold_content:
  "content (foldl (reducer env) g xs) k =
     content g k @ filter (\<lambda>e. dateKey env e = k \<and> hourOk e) xs"
  by (induction xs arbitrary: g) (auto simp: reducer_content)

lemma fold_distinct_nil: "distinct (map fst (foldl (reducer env) [] xs))"
  by (rule fold_keys_distinct) simp

lemma bucket_entries:
  assumes "b \<in> set (buckets env l)"
  shows "weatherEntries b = filter (\<lambda>e. dateKey env e = date b \<and> hourOk e) l"
proof -
  from assms obtain k es where b: "b = \<lparr>date = k, weatherEntries = es\<rparr>"
    and mem: "(k, es) \<in> set (foldl (reducer env) [] l)"
    by (auto simp: buckets_def)
  from mem have "map_of (foldl (reducer env) [] l) k = Some es"
    by (simp add: fold_distinct_nil)
  then have "content (foldl (reducer env) [] l) k = es"
    by (simp add: content_def)
  moreover have "content (foldl (reducer env) [] l) k
      = filter (\<lambda>e. dateKey env e = k \<and> hourOk e) l"
    unfolding fold_content by (simp add: content_def)
  ultimately have "es = filter (\<lambda>e. dateKey env e = k \<and> hourOk e) l"
    by simp
  with b show ?thesis by simp
qed

lemma bucket_dates: "map date (buckets env l) = map fst (foldl (reducer env) [] l)"
  by (simp add: buckets_def comp_def case_prod_unfold)

lemma bucket_dates_set: "date ` set (buckets env l) = dateKey env ` set l"
proof -
  have "set (map date (buckets env l)) = fst ` set (foldl (reducer env) [] l)"
    by (simp only: bucket_dates set_map)
  then show ?thesis by (simp add: fold_keys_set)
qed

lemma bucket_dates_distinct: "distinct (map date (buckets env l))"
  by (simp only: bucket_dates fold_distinct_nil)

lemma hourOk_iff:
  "hourOk e \<longleftrightarrow> getUTCHours (newDate (dt e * 1000)) \<in> {Some 6, Some 12, Some 18, Some 21}"
  by (auto simp: hourOk_def includes_num_def targetHours_def split: option.splits)

section \<open>What processWeatherData leaves in the state\<close>

lemma daily_processValid: "dailyWeatherData (fst (processValid env l c s)) = buckets env l"
  by (simp add: processValid_def buckets_def Let_def split: sum.splits)

lemma complete_processValid: "completeWeatherData (fst (processValid env l c s)) = l"
  by (simp add: processValid_def Let_def split: sum.splits)

lemma daily_invalidData: "dailyWeatherData (invalidData s) = []"
  by (simp add: invalidData_def resetData_def)

lemma daily_processWeatherData:
  "dailyWeatherData (fst (processWeatherData env d s)) =
     (case d of Null \<Rightarrow> [] | Obj p \<Rightarrow>
        (case (list_p p, city_p p) of (Some l, Some c) \<Rightarrow> buckets env l | _ \<Rightarrow> []))"
  by (simp add: processWeatherData_def daily_processValid daily_invalidData
      split: data.splits option.splits)

section \<open>The example evaluated\<close>

lemma example_keys:
  "dateKey exampleEnv (entryAt 10800) = ''Thu Jan 01 1970''"
  "dateKey exampleEnv (entryAt 21600) = ''Thu Jan 01 1970''"
  "dateKey exampleEnv (entryAt 32400) = ''Thu Jan 01 1970''"
  "dateKey exampleEnv (entryAt 43200) = ''Thu Jan 01 1970''"
  "dateKey exampleEnv (entryAt 54000) = ''Thu Jan 01 1970''"
  "dateKey exampleEnv (entryAt 64800) = ''Thu Jan 01 1970''"
  "dateKey exampleEnv (entryAt 75600) = ''Thu Jan 01 1970''"
  "dateKey exampleEnv (entryAt 86400) = ''Fri Jan 02 1970''"
  by (simp_all add: dateKey_def toDateString_def newDate_def exampleEnv_def exampleDateString_def entryAt_def)

lemma example_buckets:
  "buckets exampleEnv exampleList =
     [\<lparr>date = ''Thu Jan 01 1970'',
        weatherEntries = [entryAt 21600, entryAt 43200, entryAt 64800, entryAt 75600]\<rparr>,
      \<lparr>date = ''Fri Jan 02 1970'', weatherEntries = []\<rparr>]"
  by (simp add: buckets_def exampleList_def reducer_def Let_def push_def
      toDateString_def newDate_def getUTCHours_def includes_num_def targetHours_def
      exampleEnv_def exampleDateString_def entryAt_def)


lemma example_daily:
  "dailyWeatherData (fst (processWeatherData exampleEnv (Obj examplePayload) s)) =
     [\<lparr>date = ''Thu Jan 01 1970'',
        weatherEntries = [entryAt 21600, entryAt 43200, entryAt 64800, entryAt 75600]\<rparr>,
      \<lparr>date = ''Fri Jan 02 1970'', weatherEntries = []\<rparr>]"
  by (simp add: daily_processWeatherData examplePayload_def example_buckets)

lemma example_hours:
  "getUTCHours (newDate (dt (entryAt 10800) * 1000)) = Some 3"
  "getUTCHours (newDate (dt (entryAt 21600) * 1000)) = Some 6"
  "getUTCHours (newDate (dt (entryAt 86400) * 1000)) = Some 0"
  by (simp_all add: getUTCHours_def newDate_def entryAt_def)

section \<open>Claims about the regrouping\<close>

text \<open>
  C1. Whatever payload is processed, in whatever state, every entry of every bucket of
  \<open>dailyWeatherData\<close> has a UTC hour of day among 6, 12, 18 and 21; an entry whose UTC
  hour is not one of these (or whose date is invalid) is in no bucket.
\<close>

theorem bucket_entries_target_hours:
  "(\<forall>b \<in> set (dailyWeatherData (fst (processWeatherData env d s))).
      \<forall>e \<in> set (weatherEntries b).
        getUTCHours (newDate (dt e * 1000)) \<in> {Some 6, Some 12, Some 18, Some 21})
   \<and> (\<forall>e. getUTCHours (newDate (dt e * 1000)) \<notin> {Some 6, Some 12, Some 18, Some 21} \<longrightarrow>
        (\<forall>b \<in> set (dailyWeatherData (fst (processWeatherData env d s))).
           e \<notin> set (weatherEntries b)))"
proof -
  have *: "getUTCHours (newDate (dt e * 1000)) \<in> {Some 6, Some 12, Some 18, Some 21}"
    if "b \<in> set (dailyWeatherData (fst (processWeatherData env d s)))" "e \<in> set (weatherEntries b)"
    for b e
  proof -
    from that(1) obtain l where "b \<in> set (buckets env l)"
      by (auto simp: daily_processWeatherData split: data.splits option.splits)
    with that(2) have "hourOk e"
      by (simp add: bucket_entries)
    then show ?thesis by (simp only: hourOk_iff)
  qed
  show ?thesis using * by blast
qed

text \<open>
  On the example: the first bucket is produced, its entry of 06:00 passes, and the entry
  of 03:00 is in no bucket.
\<close>

theorem bucket_entries_target_hours_witness:
  "\<lparr>date = ''Thu Jan 01 1970'',
      weatherEntries = [entryAt 21600, entryAt 43200, entryAt 64800, entryAt 75600]\<rparr>
     \<in> set (dailyWeatherData (fst (processWeatherData exampleEnv (Obj examplePayload) initialState)))
   \<and> getUTCHours (newDate (dt (entryAt 21600) * 1000)) \<in> {Some 6, Some 12, Some 18, Some 21}
   \<and> getUTCHours (newDate (dt (entryAt 10800) * 1000)) \<notin> {Some 6, Some 12, Some 18, Some 21}
   \<and> entryAt 10800 \<notin> set (weatherEntries \<lparr>date = ''Thu Jan 01 1970'',
         weatherEntries = [entryAt 21600, entryAt 43200, entryAt 64800, entryAt 75600]\<rparr>)"
proof -
  let ?D = "dailyWeatherData (fst (processWeatherData exampleEnv (Obj examplePayload) initialState))"
  let ?b = "\<lparr>date = ''Thu Jan 01 1970'',
      weatherEntries = [entryAt 21600, entryAt 43200, entryAt 64800, entryAt 75600]\<rparr>"
  note T = bucket_entries_target_hours [of exampleEnv "Obj examplePayload" initialState]
  have b: "?b \<in> set ?D" by (simp add: example_daily)
  have e: "entryAt 21600 \<in> set (weatherEntries ?b)" by simp
  from T b e have 1: "getUTCHours (newDate (dt (entryAt 21600) * 1000)) \<in> {Some 6, Some 12, Some 18, Some 21}"
    by blast
  have 2: "getUTCHours (newDate (dt (entryAt 10800) * 1000)) \<notin> {Some 6, Some 12, Some 18, Some 21}"
    by (simp add: example_hours)
  from T 2 b have 3: "entryAt 10800 \<notin> set (weatherEntries ?b)"
    by blast
  from b 1 2 3 show ?thesis by blast
qed

text \<open>
  C9. For a payload with a list and a city, the dates of the buckets are exactly the date
  strings of the raw entries, each once, so there are as many buckets as distinct dates in
  the raw list; the entries of a bucket are the raw entries of its date whose UTC hour is
  6, 12, 18 or 21, in the order of the list: none, when the date has no such entry.
\<close>

theorem buckets_per_date:
  assumes "list_p p = Some l" and "city_p p = Some c"
  shows "date ` set (dailyWeatherData (fst (processWeatherData env (Obj p) s)))
           = (\<lambda>e. toDateString env (newDate (dt e * 1000))) ` set l
     \<and> distinct (map date (dailyWeatherData (fst (processWeatherData env (Obj p) s))))
     \<and> length (dailyWeatherData (fst (processWeatherData env (Obj p) s)))
           = card ((\<lambda>e. toDateString env (newDate (dt e * 1000))) ` set l)
     \<and> (\<forall>b \<in> set (dailyWeatherData (fst (processWeatherData env (Obj p) s))).
           weatherEntries b =
             filter (\<lambda>e. toDateString env (newDate (dt e * 1000)) = date b
                        \<and> getUTCHours (newDate (dt e * 1000)) \<in> {Some 6, Some 12, Some 18, Some 21}) l)"
proof -
  have D: "dailyWeatherData (fst (processWeatherData env (Obj p) s)) = buckets env l"
    using assms by (simp add: daily_processWeatherData)
  have K: "(\<lambda>e. toDateString env (newDate (dt e * 1000))) = dateKey env"
    by (simp add: dateKey_def fun_eq_iff)
  have 1: "date ` set (buckets env l) = dateKey env ` set l"
    by (rule bucket_dates_set)
  have 2: "distinct (map date (buckets env l))"
    by (rule bucket_dates_distinct)
  have "length (buckets env l) = length (map date (buckets env l))" by simp
  also have "\<dots> = card (set (map date (buckets env l)))"
    using 2 by (simp only: distinct_card)
  also have "\<dots> = card (dateKey env ` set l)"
    by (simp only: set_map 1)
  finally have 3: "length (buckets env l) = card (dateKey env ` set l)" .
  have 4: "\<forall>b \<in> set (buckets env l). weatherEntries b =
             filter (\<lambda>e. toDateString env (newDate (dt e * 1000)) = date b
                        \<and> getUTCHours (newDate (dt e * 1000)) \<in> {Some 6, Some 12, Some 18, Some 21}) l"
    by (auto simp: bucket_entries hourOk_iff dateKey_def)
  from 1 2 3 4 show ?thesis unfolding D K by blast
qed

text \<open>
  On the example: two dates, two buckets; the second date has only the entry of 00:00 and
  its bucket is empty.
\<close>

theorem buckets_per_date_witness:
  "length (dailyWeatherData (fst (processWeatherData exampleEnv (Obj examplePayload) initialState))) = 2
   \<and> card ((\<lambda>e. toDateString exampleEnv (newDate (dt e * 1000))) ` set exampleList) = 2
   \<and> \<lparr>date = ''Fri Jan 02 1970'', weatherEntries = []\<rparr>
       \<in> set (dailyWeatherData (fst (processWeatherData exampleEnv (Obj examplePayload) initialState)))
   \<and> filter (\<lambda>e. toDateString exampleEnv (newDate (dt e * 1000)) = ''Fri Jan 02 1970''
                \<and> getUTCHours (newDate (dt e * 1000)) \<in> {Some 6, Some 12, Some 18, Some 21})
        exampleList = []"
proof -
  let ?D = "dailyWeatherData (fst (processWeatherData exampleEnv (Obj examplePayload) initialState))"
  let ?b = "\<lparr>date = ''Fri Jan 02 1970'', weatherEntries = []\<rparr>"
  have l: "list_p examplePayload = Some exampleList" and c: "city_p examplePayload = Some berlin"
    by (simp_all add: examplePayload_def)
  note T = buckets_per_date [OF l c, of exampleEnv initialState]
  have n: "length ?D = 2" by (simp add: example_daily)
  have b: "?b \<in> set ?D" by (simp add: example_daily)
  from T n have card: "card ((\<lambda>e. toDateString exampleEnv (newDate (dt e * 1000))) ` set exampleList) = 2"
    by simp
  from T b have "weatherEntries ?b = filter (\<lambda>e. toDateString exampleEnv (newDate (dt e * 1000)) = date ?b
                \<and> getUTCHours (newDate (dt e * 1000)) \<in> {Some 6, Some 12, Some 18, Some 21}) exampleList"
    by blast
  then have f: "filter (\<lambda>e. toDateString exampleEnv (newDate (dt e * 1000)) = ''Fri Jan 02 1970''
                \<and> getUTCHours (newDate (dt e * 1000)) \<in> {Some 6, Some 12, Some 18, Some 21})
        exampleList = []" by simp
  from n card b f show ?thesis by blast
qed

section \<open>Current weather\<close>

lemma processValid_ok:
  assumes "regionDisplayName env (city_country c) = Inr r"
  shows "snd (processValid env l c s) = None"
  using assms by (simp add: processValid_def Let_def)

lemma currentWeather_Cons: "completeWeatherData s = e # es \<Longrightarrow> currentWeather s = Some e"
  by (simp add: currentWeather_def)

lemma fetchFinish_valid:
  assumes "list_p p = Some l" and "city_p p = Some c"
    and "regionDisplayName env (city_country c) = Inr r"
  shows "fetchFinish env cn (Resolved True (Obj p)) now s =
     (fst (processWeatherData env (Obj p)
        (s\<lparr>weatherCache := mapSet (weatherCache s) cn \<lparr>timestamp = now, cached = Obj p\<rparr>\<rparr>)))
       \<lparr>isLoading := False\<rparr>"
proof -
  let ?s = "s\<lparr>weatherCache := mapSet (weatherCache s) cn \<lparr>timestamp = now, cached = Obj p\<rparr>\<rparr>"
  have "processWeatherData env (Obj p) ?s = processValid env l c ?s"
    using assms(1,2) by (simp add: processWeatherData_def)
  moreover have "snd (processValid env l c ?s) = None"
    using assms(3) by (rule processValid_ok)
  ultimately have "snd (processWeatherData env (Obj p) ?s) = None" by simp
  then show ?thesis
    by (cases "processWeatherData env (Obj p) ?s") (simp add: fetchFinish_def tryBlock_def)
qed

lemma currentWeather_isLoading: "currentWeather (s\<lparr>isLoading := b\<rparr>) = currentWeather s"
  by (simp add: currentWeather_def)

text \<open>
  C2. When a payload with a non-empty list and a city is processed without an exception,
  \<open>currentWeather\<close> is the first entry of the raw list, whatever its hour; so it is
  after a fetch that delivered this payload with a success status.
\<close>

theorem currentWeather_first_raw_entry:
  assumes "list_p p = Some (e # es)" and "city_p p = Some c"
    and "regionDisplayName env (city_country c) = Inr r"
  shows "snd (processWeatherData env (Obj p) s) = None
     \<and> currentWeather (fst (processWeatherData env (Obj p) s)) = Some e
     \<and> currentWeather (fetchFinish env cn (Resolved True (Obj p)) now s) = Some e"
proof -
  have P: "processWeatherData env (Obj p) s' = processValid env (e # es) c s'" for s'
    using assms(1,2) by (simp add: processWeatherData_def)
  have cur: "currentWeather (fst (processWeatherData env (Obj p) s')) = Some e" for s'
  proof -
    have "completeWeatherData (fst (processValid env (e # es) c s')) = e # es"
      by (rule complete_processValid)
    then have "currentWeather (fst (processValid env (e # es) c s')) = Some e"
      by (rule currentWeather_Cons)
    then show ?thesis by (simp only: P)
  qed
  have "snd (processValid env (e # es) c s) = None"
    using assms(3) by (rule processValid_ok)
  then have 1: "snd (processWeatherData env (Obj p) s) = None"
    by (simp only: P)
  have 3: "currentWeather (fetchFinish env cn (Resolved True (Obj p)) now s) = Some e"
    by (simp only: fetchFinish_valid [OF assms] currentWeather_isLoading cur)
  from 1 cur 3 show ?thesis by simp
qed

text \<open>
  On the example the current weather is the entry of 03:00, which is not a target hour and
  is not the first entry of today's blocks.
\<close>

theorem currentWeather_first_raw_entry_witness:
  "currentWeather (fst (processWeatherData exampleEnv (Obj examplePayload) initialState))
      = Some (entryAt 10800)
   \<and> getUTCHours (newDate (dt (entryAt 10800) * 1000)) = Some 3
   \<and> todayBlocks (fst (processWeatherData exampleEnv (Obj examplePayload) initialState))
      = [entryAt 21600, entryAt 43200, entryAt 64800, entryAt 75600]
   \<and> entryAt 10800 \<noteq> entryAt 21600"
proof -
  have l: "list_p examplePayload
      = Some (entryAt 10800 # map entryAt [21600, 32400, 43200, 54000, 64800, 75600, 86400])"
    by (simp add: examplePayload_def exampleList_def)
  have c: "city_p examplePayload = Some berlin"
    by (simp add: examplePayload_def)
  have r: "regionDisplayName exampleEnv (city_country berlin) = Inr (Some ''Deutschland'')"
    by (simp add: exampleEnv_def berlin_def)
  note T = currentWeather_first_raw_entry [OF l c r, of initialState]
  have t: "todayBlocks (fst (processWeatherData exampleEnv (Obj examplePayload) initialState))
      = [entryAt 21600, entryAt 43200, entryAt 64800, entryAt 75600]"
    by (simp add: todayBlocks_def example_daily)
  have d: "entryAt 10800 \<noteq> entryAt 21600" by (simp add: entryAt_def)
  from T t d show ?thesis by (simp add: example_hours)
qed

section \<open>The cache map and the frame of the forecast functions\<close>

lemma map_of_mapSet: "map_of (mapSet m k v) k' = (if k' = k then Some v else map_of m k')"
  by (induction m) auto

lemma mapSet_keys:
  "map fst (mapSet m k v) = (if k \<in> set (map fst m) then map fst m else map fst m @ [k])"
  by (induction m) force+

lemma mapSet_keys_distinct: "distinct (map fst m) \<Longrightarrow> distinct (map fst (mapSet m k v))"
  by (simp add: mapSet_keys)

lemma processValid_frame:
  "weatherCache (fst (processValid env l c s)) = weatherCache s"
  "lastFetchedCity (fst (processValid env l c s)) = lastFetchedCity s"
  by (simp_all add: processValid_def Let_def split: sum.splits)

lemma invalidData_frame:
  "weatherCache (invalidData s) = weatherCache s"
  "lastFetchedCity (invalidData s) = lastFetchedCity s"
  by (simp_all add: invalidData_def resetData_def)

lemma processWeatherData_frame:
  "weatherCache (fst (processWeatherData env d s)) = weatherCache s"
  "lastFetchedCity (fst (processWeatherData env d s)) = lastFetchedCity s"
  by (simp_all add: processWeatherData_def processValid_frame invalidData_frame
      split: data.splits option.splits)

lemma catchBlock_frame:
  "weatherCache (catchBlock err s) = weatherCache s"
  "lastFetchedCity (catchBlock err s) = lastFetchedCity s"
  by (simp_all add: catchBlock_def resetData_def)

lemma tryBlock_last: "lastFetchedCity (fst (tryBlock env cn resp now s)) = lastFetchedCity s"
proof (cases resp)
  case (Rejected t)
  then show ?thesis by (simp add: tryBlock_def)
next
  case (Unparsed ok t)
  then show ?thesis by (simp add: tryBlock_def)
next
  case (Resolved ok d)
  show ?thesis
  proof (cases ok)
    case True
    obtain s' x where P: "processWeatherData env d
        (s\<lparr>weatherCache := mapSet (weatherCache s) cn \<lparr>timestamp = now, cached = d\<rparr>\<rparr>) = (s', x)"
      by (cases "processWeatherData env d
        (s\<lparr>weatherCache := mapSet (weatherCache s) cn \<lparr>timestamp = now, cached = d\<rparr>\<rparr>)")
    have "lastFetchedCity s' = lastFetchedCity s"
      using processWeatherData_frame(2) [of env d
          "s\<lparr>weatherCache := mapSet (weatherCache s) cn \<lparr>timestamp = now, cached = d\<rparr>\<rparr>"]
      by (simp add: P)
    then show ?thesis using Resolved True P by (simp add: tryBlock_def split: option.splits)
  next
    case False
    then show ?thesis using Resolved by (simp add: tryBlock_def)
  qed
qed

lemma tryBlock_cache:
  "weatherCache (fst (tryBlock env cn resp now s)) =
     (case resp of
        Rejected t \<Rightarrow> weatherCache s
      | Unparsed ok t \<Rightarrow> weatherCache s
      | Resolved ok d \<Rightarrow>
          if ok then mapSet (weatherCache s) cn \<lparr>timestamp = now, cached = d\<rparr>
          else weatherCache s)"
proof (cases resp)
  case (Rejected t)
  then show ?thesis by (simp add: tryBlock_def)
next
  case (Unparsed ok t)
  then show ?thesis by (simp add: tryBlock_def)
next
  case (Resolved ok d)
  show ?thesis
  proof (cases ok)
    case True
    obtain s' x where P: "processWeatherData env d
        (s\<lparr>weatherCache := mapSet (weatherCache s) cn \<lparr>timestamp = now, cached = d\<rparr>\<rparr>) = (s', x)"
      by (cases "processWeatherData env d
        (s\<lparr>weatherCache := mapSet (weatherCache s) cn \<lparr>timestamp = now, cached = d\<rparr>\<rparr>)")
    have "weatherCache s' = mapSet (weatherCache s) cn \<lparr>timestamp = now, cached = d\<rparr>"
      using processWeatherData_frame(1) [of env d
          "s\<lparr>weatherCache := mapSet (weatherCache s) cn \<lparr>timestamp = now, cached = d\<rparr>\<rparr>"]
      by (simp add: P)
    then show ?thesis using Resolved True P by (simp add: tryBlock_def split: option.splits)
  next
    case False
    then show ?thesis using Resolved by (simp add: tryBlock_def)
  qed
qed

lemma fetchFinish_last: "lastFetchedCity (fetchFinish env cn resp now s) = lastFetchedCity s"
proof -
  obtain s' x where T: "tryBlock env cn resp now s = (s', x)"
    by (cases "tryBlock env cn resp now s")
  have "lastFetchedCity s' = lastFetchedCity s"
    using tryBlock_last [of env cn resp now s] by (simp add: T)
  then show ?thesis
    by (simp add: fetchFinish_def T catchBlock_frame split: option.splits)
qed

lemma fetchFinish_cache:
  "weatherCache (fetchFinish env cn resp now s) =
     (case resp of
        Rejected t \<Rightarrow> weatherCache s
      | Unparsed ok t \<Rightarrow> weatherCache s
      | Resolved ok d \<Rightarrow>
          if ok then mapSet (weatherCache s) cn \<lparr>timestamp = now, cached = d\<rparr>
          else weatherCache s)"
proof -
  obtain s' x where T: "tryBlock env cn resp now s = (s', x)"
    by (cases "tryBlock env cn resp now s")
  have "weatherCache (fetchFinish env cn resp now s) = weatherCache s'"
    by (simp add: fetchFinish_def T catchBlock_frame split: option.splits)
  also have "\<dots> = weatherCache (fst (tryBlock env cn resp now s))"
    by (simp add: T)
  finally show ?thesis by (simp only: tryBlock_cache)
qed

section \<open>The ways through fetchWeatherForecast\<close>

lemma fetchStart_guard:
  "cn = [] \<or> lastFetchedCity s = Some cn \<Longrightarrow> fetchStart env now cn s = Finished s"
  by (auto simp: fetchStart_def)

lemma fetchStart_hit:
  assumes "cn \<noteq> []" "lastFetchedCity s \<noteq> Some cn"
    and "map_of (weatherCache s) cn = Some c" "now - timestamp c < CACHE_DURATION"
  shows "fetchStart env now cn s =
     (case processWeatherData env (cached c) s of
        (s', None) \<Rightarrow> Finished s' | (s', Some msg) \<Rightarrow> Escaped s' msg)"
  using assms by (auto simp: fetchStart_def)

lemma fetchStart_miss:
  assumes "cn \<noteq> []" "lastFetchedCity s \<noteq> Some cn"
    and "case map_of (weatherCache s) cn of None \<Rightarrow> True
          | Some c \<Rightarrow> CACHE_DURATION \<le> now - timestamp c"
  shows "fetchStart env now cn s = Requested (requested cn s)"
  using assms by (auto simp: fetchStart_def split: option.splits)

lemma fetchStart_Requested:
  assumes "fetchStart env now cn s = Requested s1"
  shows "s1 = requested cn s \<and> cn \<noteq> [] \<and> lastFetchedCity s \<noteq> Some cn
     \<and> (case map_of (weatherCache s) cn of None \<Rightarrow> True
          | Some c \<Rightarrow> CACHE_DURATION \<le> now - timestamp c)"
  using assms by (auto simp: fetchStart_def split: option.splits if_splits prod.splits)

lemma fetchStart_not_Requested:
  assumes "\<forall>s1. fetchStart env now cn s \<noteq> Requested s1"
  shows "cn = [] \<or> lastFetchedCity s = Some cn
     \<or> (\<exists>c. map_of (weatherCache s) cn = Some c \<and> now - timestamp c < CACHE_DURATION)"
  using assms by (auto simp: fetchStart_def split: option.splits if_splits prod.splits)

lemma fetchStart_frame:
  assumes "fetchStart env now cn s = Finished s' \<or> fetchStart env now cn s = Escaped s' m"
  shows "weatherCache s' = weatherCache s \<and> lastFetchedCity s' = lastFetchedCity s"
proof -
  have *: "weatherCache (fst (processWeatherData env d s)) = weatherCache s
     \<and> lastFetchedCity (fst (processWeatherData env d s)) = lastFetchedCity s" for d
    by (simp add: processWeatherData_frame)
  show ?thesis using assms
    apply (auto simp: fetchStart_def split: option.splits if_splits prod.splits)
    using * apply (metis fst_conv)+
    done
qed

lemma requested_last: "lastFetchedCity (requested cn s) = Some cn"
  by (simp add: requested_def)

lemma requested_cache: "weatherCache (requested cn s) = weatherCache s"
  by (simp add: requested_def)

lemma forecast_network_iff:
  "snd (fetchWeatherForecast env now resp now' cn s) \<longleftrightarrow>
     (\<exists>s1. fetchStart env now cn s = Requested s1)"
  by (cases "fetchStart env now cn s") (simp_all add: fetchWeatherForecast_def)

lemma forecast_Requested:
  "fetchStart env now cn s = Requested s1 \<Longrightarrow>
     fetchWeatherForecast env now resp now' cn s = (fetchFinish env cn resp now' s1, True)"
  by (simp add: fetchWeatherForecast_def)

lemma forecast_not_Requested:
  assumes "\<not> snd (fetchWeatherForecast env now resp now' cn s)"
  shows "weatherCache (fst (fetchWeatherForecast env now resp now' cn s)) = weatherCache s
     \<and> lastFetchedCity (fst (fetchWeatherForecast env now resp now' cn s)) = lastFetchedCity s"
proof (cases "fetchStart env now cn s")
  case (Finished s')
  then show ?thesis using fetchStart_frame [of env now cn s s']
    by (simp add: fetchWeatherForecast_def)
next
  case (Escaped s' m)
  then show ?thesis using fetchStart_frame [of env now cn s s' m]
    by (simp add: fetchWeatherForecast_def)
next
  case (Requested s1)
  with assms show ?thesis by (simp add: fetchWeatherForecast_def)
qed

lemma forecast_suppressed:
  "lastFetchedCity s = Some cn \<Longrightarrow> fetchWeatherForecast env now resp now' cn s = (s, False)"
  by (simp add: fetchWeatherForecast_def fetchStart_guard)

section \<open>Failures\<close>

lemma invalidShape_process: "invalidShape d \<Longrightarrow> processWeatherData env d s = (invalidData s, None)"
  by (auto simp: invalidShape_def processWeatherData_def split: data.splits option.splits)

lemma invalidData_error:
  "error (invalidData s) = Some msgInvalidData" "collectionsCleared (invalidData s)"
  "isLoading (invalidData s) = isLoading s"
  by (simp_all add: invalidData_def resetData_def collectionsCleared_def)

lemma catchBlock_error:
  "error (catchBlock err s) = Some (case err of ErrorObj m \<Rightarrow> m | OtherValue \<Rightarrow> msgUnknown)"
  "collectionsCleared (catchBlock err s)"
  by (simp_all add: catchBlock_def resetData_def collectionsCleared_def)

lemma isLoading_update_frame:
  "error (s\<lparr>isLoading := b\<rparr>) = error s"
  "collectionsCleared (s\<lparr>isLoading := b\<rparr>) = collectionsCleared s"
  by (simp_all add: collectionsCleared_def)

lemma fetchFinish_Rejected:
  "fetchFinish env cn (Rejected t) now s = (catchBlock t s)\<lparr>isLoading := False\<rparr>"
  by (simp add: fetchFinish_def tryBlock_def)

lemma fetchFinish_Unparsed:
  "fetchFinish env cn (Unparsed ok t) now s = (catchBlock t s)\<lparr>isLoading := False\<rparr>"
  by (simp add: fetchFinish_def tryBlock_def)

lemma fetchFinish_not_ok:
  "fetchFinish env cn (Resolved False d) now s = (catchBlock (notOkError env d) s)\<lparr>isLoading := False\<rparr>"
  by (simp add: fetchFinish_def tryBlock_def)

lemma fetchFinish_invalid:
  "invalidShape d \<Longrightarrow>
   fetchFinish env cn (Resolved True d) now s =
     (invalidData (s\<lparr>weatherCache := mapSet (weatherCache s) cn \<lparr>timestamp = now, cached = d\<rparr>\<rparr>))
       \<lparr>isLoading := False\<rparr>"
  by (simp add: fetchFinish_def tryBlock_def invalidShape_process)

lemma fetchStart_hit_invalid:
  assumes "cn \<noteq> []" "lastFetchedCity s \<noteq> Some cn"
    and "map_of (weatherCache s) cn = Some c" "now - timestamp c < CACHE_DURATION"
    and "invalidShape (cached c)"
  shows "fetchStart env now cn s = Finished (invalidData s)"
  using assms by (simp add: fetchStart_hit invalidShape_process)

section \<open>The example session\<close>

lemma initialState_fields:
  "weatherCache initialState = []" "lastFetchedCity initialState = None"
  by (simp_all add: initialState_def)

lemma afterParis_eq:
  "fetchWeatherForecast exampleEnv 0 r1 5 ''Paris'' initialState
     = (fetchFinish exampleEnv ''Paris'' r1 5 (requested ''Paris'' initialState), True)"
  by (simp add: fetchWeatherForecast_def fetchStart_def initialState_def)

lemma afterParis_facts:
  "weatherCache (afterParis (Resolved True d1)) = [(''Paris'', \<lparr>timestamp = 5, cached = d1\<rparr>)]"
  "lastFetchedCity (afterParis r1) = Some ''Paris''"
  by (simp_all add: afterParis_def afterParis_eq fetchFinish_cache fetchFinish_last
      requested_last requested_cache initialState_fields)

lemma twoCities_eq:
  "fetchWeatherForecast exampleEnv 1000 r2 1005 ''Berlin'' (afterParis (Resolved True d1))
     = (fetchFinish exampleEnv ''Berlin'' r2 1005 (requested ''Berlin'' (afterParis (Resolved True d1))), True)"
  by (simp add: fetchWeatherForecast_def fetchStart_def afterParis_facts)

lemma twoCities_facts:
  "weatherCache (twoCities (Resolved True d1) (Resolved True d2))
     = [(''Paris'', \<lparr>timestamp = 5, cached = d1\<rparr>), (''Berlin'', \<lparr>timestamp = 1005, cached = d2\<rparr>)]"
  "lastFetchedCity (twoCities (Resolved True d1) r2) = Some ''Berlin''"
  by (simp_all add: twoCities_def twoCities_eq fetchFinish_cache fetchFinish_last
      requested_last requested_cache afterParis_facts)

lemma staleState_eq:
  "staleState = fst (processWeatherData exampleEnv (Obj examplePayload)
     (twoCities okResponse (Resolved True invalidPayload)))"
proof -
  let ?s = "twoCities okResponse (Resolved True invalidPayload)"
  let ?c = "\<lparr>timestamp = 5, cached = Obj examplePayload\<rparr>"
  have "map_of (weatherCache ?s) ''Paris'' = Some ?c" "lastFetchedCity ?s = Some ''Berlin''"
    by (simp_all add: okResponse_def twoCities_facts)
  then have "''Paris'' \<noteq> [] \<and> lastFetchedCity ?s \<noteq> Some ''Paris''
      \<and> map_of (weatherCache ?s) ''Paris'' = Some ?c \<and> 2000 - timestamp ?c < CACHE_DURATION"
    by (simp add: CACHE_DURATION_def)
  then have "fetchStart exampleEnv 2000 ''Paris'' ?s =
     (case processWeatherData exampleEnv (cached ?c) ?s of
        (s', None) \<Rightarrow> Finished s' | (s', Some msg) \<Rightarrow> Escaped s' msg)"
    by (simp add: fetchStart_hit)
  then show ?thesis
    by (cases "processWeatherData exampleEnv (Obj examplePayload) ?s")
       (auto simp: staleState_def fetchWeatherForecast_def split: option.splits)
qed

section \<open>Calls in a row\<close>

text \<open>
  A request that passes the guard and finds its city in the cache, before and after the
  ten minutes; and a request repeated directly after the call that sent its city to the
  network.
\<close>

lemma forecast_hit:
  assumes "cn \<noteq> []" "lastFetchedCity s \<noteq> Some cn"
    and "map_of (weatherCache s) cn = Some c" "now - timestamp c < CACHE_DURATION"
  shows "fetchWeatherForecast env now resp now' cn s
     = (fst (processWeatherData env (cached c) s), False)"
  using assms
  by (cases "processWeatherData env (cached c) s")
     (auto simp: fetchWeatherForecast_def fetchStart_hit split: option.splits)

lemma forecast_expired:
  assumes "cn \<noteq> []" "lastFetchedCity s \<noteq> Some cn"
    and "map_of (weatherCache s) cn = Some c" "CACHE_DURATION \<le> now - timestamp c"
  shows "snd (fetchWeatherForecast env now resp now' cn s)"
  using assms by (simp add: fetchWeatherForecast_def fetchStart_miss)

lemma forecast_repeat:
  assumes "snd (fetchWeatherForecast env ta ra tb cn sp)"
  shows "fetchWeatherForecast env now resp now' cn (fst (fetchWeatherForecast env ta ra tb cn sp))
     = (fst (fetchWeatherForecast env ta ra tb cn sp), False)"
proof -
  from assms obtain s1 where S: "fetchStart env ta cn sp = Requested s1"
    by (auto simp: forecast_network_iff)
  then have s1: "s1 = requested cn sp"
    using fetchStart_Requested by blast
  have "fst (fetchWeatherForecast env ta ra tb cn sp) = fetchFinish env cn ra tb s1"
    using S by (simp add: forecast_Requested)
  then have "lastFetchedCity (fst (fetchWeatherForecast env ta ra tb cn sp)) = Some cn"
    by (simp add: fetchFinish_last s1 requested_last)
  then show ?thesis by (rule forecast_suppressed)
qed

lemma invalidData_idem: "invalidData ((invalidData s)\<lparr>isLoading := b\<rparr>) = (invalidData s)\<lparr>isLoading := b\<rparr>"
  by (simp add: invalidData_def resetData_def)

lemma forecast_repeat_invalid:
  assumes "invalidShape d" and "snd (fetchWeatherForecast env ta (Resolved True d) tb cn sp)"
  shows "fetchWeatherForecast env tq resp now cn (fst (fetchWeatherForecast env ta (Resolved True d) tb cn sp))
           = (invalidData (fst (fetchWeatherForecast env ta (Resolved True d) tb cn sp)), False)
     \<and> error (fst (fetchWeatherForecast env ta (Resolved True d) tb cn sp)) = Some msgInvalidData
     \<and> collectionsCleared (fst (fetchWeatherForecast env ta (Resolved True d) tb cn sp))"
proof -
  let ?s1 = "fst (fetchWeatherForecast env ta (Resolved True d) tb cn sp)"
  from assms(2) obtain sr where S: "fetchStart env ta cn sp = Requested sr"
    by (auto simp: forecast_network_iff)
  then have E: "?s1 = fetchFinish env cn (Resolved True d) tb sr"
    by (simp add: forecast_Requested)
  have F: "fetchFinish env cn (Resolved True d) tb sr =
     (invalidData (sr\<lparr>weatherCache := mapSet (weatherCache sr) cn \<lparr>timestamp = tb, cached = d\<rparr>\<rparr>))
       \<lparr>isLoading := False\<rparr>"
    using assms(1) by (rule fetchFinish_invalid)
  have idem: "invalidData ?s1 = ?s1"
    by (simp only: E F invalidData_idem)
  have rep: "fetchWeatherForecast env tq resp now cn ?s1 = (?s1, False)"
    using assms(2) by (rule forecast_repeat)
  have err: "error ?s1 = Some msgInvalidData" and clr: "collectionsCleared ?s1"
    by (simp_all add: E F isLoading_update_frame invalidData_error)
  from rep idem err clr show ?thesis by simp
qed

lemma process_error_or_cleared:
  "snd (processWeatherData env d s) = None \<Longrightarrow>
   error (fst (processWeatherData env d s)) = error s
   \<or> collectionsCleared (fst (processWeatherData env d s))"
  by (auto simp: processWeatherData_def processValid_def Let_def invalidData_def resetData_def
      collectionsCleared_def split: data.splits option.splits sum.splits)

lemma fetchFinish_error_cleared:
  assumes "error s = None" and "error (fetchFinish env cn resp now s) \<noteq> None"
  shows "collectionsCleared (fetchFinish env cn resp now s)"
proof (cases "tryBlock env cn resp now s")
  case (Pair s' x)
  show ?thesis
  proof (cases x)
    case (Some err)
    then show ?thesis
      using Pair by (simp add: fetchFinish_def isLoading_update_frame catchBlock_error)
  next
    case None
    with Pair have F: "fetchFinish env cn resp now s = s'\<lparr>isLoading := False\<rparr>"
      by (simp add: fetchFinish_def)
    from Pair None obtain d where r: "resp = Resolved True d"
      by (cases resp) (auto simp: tryBlock_def split: if_splits)
    let ?s = "s\<lparr>weatherCache := mapSet (weatherCache s) cn \<lparr>timestamp = now, cached = d\<rparr>\<rparr>"
    from Pair None r have P: "processWeatherData env d ?s = (s', None)"
      by (cases "processWeatherData env d ?s") (auto simp: tryBlock_def split: option.splits)
    then have "error s' = error ?s \<or> collectionsCleared s'"
      using process_error_or_cleared [of env d ?s] by simp
    moreover have "error s' \<noteq> None"
      using assms(2) by (simp add: F)
    ultimately have "collectionsCleared s'"
      using assms(1) by simp
    then show ?thesis by (simp add: F isLoading_update_frame)
  qed
qed

section \<open>Claims about fetching and the cache\<close>




text \<open>
  C3, as stated, fails: Berlin was fetched and stored at clock 1005, and the request for
  Berlin is repeated at clock 700000, more than ten minutes later, with no other request
  in between; the duplicate guard stops it and no network request is issued.
\<close>

theorem ttl_claim_counterexample:
  "snd (fetchWeatherForecast exampleEnv 1000 okResponse 1005 ''Berlin'' (afterParis okResponse))
   \<and> map_of (weatherCache (twoCities okResponse okResponse)) ''Berlin''
        = Some \<lparr>timestamp = 1005, cached = Obj examplePayload\<rparr>
   \<and> CACHE_DURATION < 700000 - 1005
   \<and> \<not> snd (fetchWeatherForecast exampleEnv 700000 okResponse 700005 ''Berlin''
             (twoCities okResponse okResponse))"
  by (simp add: okResponse_def twoCities_eq twoCities_facts CACHE_DURATION_def forecast_suppressed)

text \<open>
  C3, amended. A request repeated for a city directly after the call that fetched it over
  the network with a success status and a body that parses is suppressed, whatever time
  has passed. A request that passes the guard (its city is not the last one fetched) and
  finds its city in the cache issues no network request and reprocesses the cached
  payload when less than ten minutes have passed since the entry was stored, and issues a
  network request otherwise. A response with a success status and a body that parses
  leaves exactly such an entry, stamped with the clock at storing; a body that does not
  parse leaves none.
\<close>

theorem cache_ttl_behind_guard:
  "(snd (fetchWeatherForecast env ta (Resolved True d) tb cn sp) \<longrightarrow>
      fetchWeatherForecast env now resp now' cn
          (fst (fetchWeatherForecast env ta (Resolved True d) tb cn sp))
        = (fst (fetchWeatherForecast env ta (Resolved True d) tb cn sp), False))
   \<and> (cn \<noteq> [] \<and> lastFetchedCity s \<noteq> Some cn \<and> map_of (weatherCache s) cn = Some c
        \<and> now - timestamp c < CACHE_DURATION \<longrightarrow>
        \<not> snd (fetchWeatherForecast env now resp now' cn s)
        \<and> fst (fetchWeatherForecast env now resp now' cn s) = fst (processWeatherData env (cached c) s))
   \<and> (cn \<noteq> [] \<and> lastFetchedCity s \<noteq> Some cn \<and> map_of (weatherCache s) cn = Some c
        \<and> CACHE_DURATION \<le> now - timestamp c \<longrightarrow>
        snd (fetchWeatherForecast env now resp now' cn s))
   \<and> map_of (weatherCache (fetchFinish env cn (Resolved True d) t s)) cn
        = Some \<lparr>timestamp = t, cached = d\<rparr>
   \<and> weatherCache (fetchFinish env cn (Unparsed ok e) t s) = weatherCache s"
proof -
  have 1: "snd (fetchWeatherForecast env ta (Resolved True d) tb cn sp) \<longrightarrow>
      fetchWeatherForecast env now resp now' cn
          (fst (fetchWeatherForecast env ta (Resolved True d) tb cn sp))
        = (fst (fetchWeatherForecast env ta (Resolved True d) tb cn sp), False)"
    using forecast_repeat by blast
  have 2: "cn \<noteq> [] \<and> lastFetchedCity s \<noteq> Some cn \<and> map_of (weatherCache s) cn = Some c
        \<and> now - timestamp c < CACHE_DURATION \<longrightarrow>
        \<not> snd (fetchWeatherForecast env now resp now' cn s)
        \<and> fst (fetchWeatherForecast env now resp now' cn s) = fst (processWeatherData env (cached c) s)"
    by (simp add: forecast_hit)
  have 3: "cn \<noteq> [] \<and> lastFetchedCity s \<noteq> Some cn \<and> map_of (weatherCache s) cn = Some c
        \<and> CACHE_DURATION \<le> now - timestamp c \<longrightarrow>
        snd (fetchWeatherForecast env now resp now' cn s)"
    using forecast_expired by blast
  have 4: "map_of (weatherCache (fetchFinish env cn (Resolved True d) t s)) cn
        = Some \<lparr>timestamp = t, cached = d\<rparr>"
    by (simp add: fetchFinish_cache map_of_mapSet)
  have 5: "weatherCache (fetchFinish env cn (Unparsed ok e) t s) = weatherCache s"
    by (simp add: fetchFinish_cache)
  from 1 2 3 4 5 show ?thesis by blast
qed

text \<open>
  After Paris and then Berlin were fetched: Berlin, repeated at clock 700000, is
  suppressed; Paris is served from the cache at clock 2000 and fetched again at clock
  700000.
\<close>

theorem cache_ttl_behind_guard_witness:
  "snd (fetchWeatherForecast exampleEnv 1000 okResponse 1005 ''Berlin'' (afterParis okResponse))
   \<and> fetchWeatherForecast exampleEnv 700000 okResponse 700005 ''Berlin'' (twoCities okResponse okResponse)
      = (twoCities okResponse okResponse, False)
   \<and> map_of (weatherCache (twoCities okResponse okResponse)) ''Paris''
      = Some \<lparr>timestamp = 5, cached = Obj examplePayload\<rparr>
   \<and> \<not> snd (fetchWeatherForecast exampleEnv 2000 okResponse 2005 ''Paris'' (twoCities okResponse okResponse))
   \<and> fst (fetchWeatherForecast exampleEnv 2000 okResponse 2005 ''Paris'' (twoCities okResponse okResponse))
      = fst (processWeatherData exampleEnv (Obj examplePayload) (twoCities okResponse okResponse))
   \<and> snd (fetchWeatherForecast exampleEnv 700000 okResponse 700005 ''Paris'' (twoCities okResponse okResponse))"
proof -
  let ?s = "twoCities okResponse okResponse"
  let ?c = "\<lparr>timestamp = 5, cached = Obj examplePayload\<rparr>"
  have f: "snd (fetchWeatherForecast exampleEnv 1000 (Resolved True (Obj examplePayload)) 1005
      ''Berlin'' (afterParis okResponse))"
    by (simp add: okResponse_def twoCities_eq)
  have c: "map_of (weatherCache ?s) ''Paris'' = Some ?c"
    and l: "lastFetchedCity ?s = Some ''Berlin''"
    by (simp_all add: okResponse_def twoCities_facts)
  have n: "''Paris'' \<noteq> []" "lastFetchedCity ?s \<noteq> Some ''Paris''"
    by (simp_all add: l)
  have t1: "2000 - timestamp ?c < CACHE_DURATION" and t2: "CACHE_DURATION \<le> 700000 - timestamp ?c"
    by (simp_all add: CACHE_DURATION_def)
  from cache_ttl_behind_guard [where env = exampleEnv and ta = 1000 and d = "Obj examplePayload"
      and tb = 1005 and cn = "''Berlin''" and sp = "afterParis okResponse" and now = 700000
      and resp = okResponse and now' = 700005] f
  have A: "fetchWeatherForecast exampleEnv 700000 okResponse 700005 ''Berlin'' ?s = (?s, False)"
    by (simp add: twoCities_def okResponse_def)
  from cache_ttl_behind_guard [where s = ?s and cn = "''Paris''" and env = exampleEnv
      and now = 2000 and resp = okResponse and now' = 2005 and c = ?c] n c t1
  have B: "\<not> snd (fetchWeatherForecast exampleEnv 2000 okResponse 2005 ''Paris'' ?s)
     \<and> fst (fetchWeatherForecast exampleEnv 2000 okResponse 2005 ''Paris'' ?s)
         = fst (processWeatherData exampleEnv (Obj examplePayload) ?s)"
    by simp
  from cache_ttl_behind_guard [where s = ?s and cn = "''Paris''" and env = exampleEnv
      and now = 700000 and resp = okResponse and now' = 700005 and c = ?c] n c t2
  have C: "snd (fetchWeatherForecast exampleEnv 700000 okResponse 700005 ''Paris'' ?s)"
    by simp
  from f A c B C show ?thesis by (simp add: okResponse_def)
qed

text \<open>
  C6, as stated, fails. When \<open>fetch\<close> rejects, the message shown is the message of the
  thrown error, here the browser's "Failed to fetch", which is none of the component's
  fallback texts; and a body that fails the shape check is reported with the fixed text
  for invalid data even when it carries a message of the server.
\<close>

theorem error_message_counterexample:
  "error (fst (fetchWeatherForecast exampleEnv 0 (Rejected (ErrorObj ''Failed to fetch'')) 5
        ''Paris'' initialState)) = Some ''Failed to fetch''
   \<and> ''Failed to fetch'' \<noteq> msgFetchFailed \<and> ''Failed to fetch'' \<noteq> msgUnknown
   \<and> ''Failed to fetch'' \<noteq> msgInvalidData
   \<and> error (fst (fetchWeatherForecast exampleEnv 0 (Resolved True (Obj notFoundPayload)) 5
        ''Paris'' initialState)) = Some msgInvalidData
   \<and> message_p notFoundPayload = Some ''city not found''
   \<and> msgInvalidData \<noteq> ''city not found''"
  by (simp add: afterParis_eq fetchFinish_Rejected isLoading_update_frame catchBlock_error
      fetchFinish_invalid invalidShape_def invalidData_error notFoundPayload_def
      msgFetchFailed_def msgUnknown_def msgInvalidData_def)

text \<open>
  C6, amended. A request that reached the network, found no error message set when its
  response arrived, and ends with one has the three display collections empty; so has
  every request whose fetch or parsing rejects, whose status is not a success, or whose
  body fails the shape check. The message is, first, the message of the thrown error
  when \<open>fetch\<close> rejects or the body does not parse, whatever the status (the text for
  unknown errors when the thrown value is no Error); else, for a status that is not a
  success and a body that is a JSON object, the message of the body when it has a
  non-empty one and the text for a failed fetch otherwise; else, for a success status and
  a body that fails the shape check, the text for invalid data. A cached body that fails
  the shape check gives the same text and empty collections when it is reprocessed.
\<close>

theorem error_state_message:
  "(error (fetchFinish env cn (Rejected (ErrorObj m)) now s) = Some m
      \<and> error (fetchFinish env cn (Unparsed ok (ErrorObj m)) now s) = Some m)
   \<and> (error (fetchFinish env cn (Rejected OtherValue) now s) = Some msgUnknown
      \<and> error (fetchFinish env cn (Unparsed ok OtherValue) now s) = Some msgUnknown)
   \<and> (message_p p = Some m \<and> m \<noteq> [] \<longrightarrow>
        error (fetchFinish env cn (Resolved False (Obj p)) now s) = Some m)
   \<and> (message_p p = None \<or> message_p p = Some [] \<longrightarrow>
        error (fetchFinish env cn (Resolved False (Obj p)) now s) = Some msgFetchFailed)
   \<and> (invalidShape d \<longrightarrow>
        error (fetchFinish env cn (Resolved True d) now s) = Some msgInvalidData)
   \<and> (cn \<noteq> [] \<and> lastFetchedCity s \<noteq> Some cn \<and> map_of (weatherCache s) cn = Some c
        \<and> now - timestamp c < CACHE_DURATION \<and> invalidShape (cached c) \<longrightarrow>
        fetchStart env now cn s = Finished (invalidData s)
        \<and> error (invalidData s) = Some msgInvalidData \<and> collectionsCleared (invalidData s))
   \<and> (error s = None \<and> error (fetchFinish env cn resp now s) \<noteq> None \<longrightarrow>
        collectionsCleared (fetchFinish env cn resp now s))
   \<and> collectionsCleared (fetchFinish env cn (Rejected t) now s)
   \<and> collectionsCleared (fetchFinish env cn (Unparsed ok t) now s)
   \<and> collectionsCleared (fetchFinish env cn (Resolved False d) now s)
   \<and> (invalidShape d \<longrightarrow> collectionsCleared (fetchFinish env cn (Resolved True d) now s))"
proof -
  have 1: "error (fetchFinish env cn (Rejected (ErrorObj m)) now s) = Some m
      \<and> error (fetchFinish env cn (Unparsed ok (ErrorObj m)) now s) = Some m"
    by (simp add: fetchFinish_Rejected fetchFinish_Unparsed isLoading_update_frame catchBlock_error)
  have 2: "error (fetchFinish env cn (Rejected OtherValue) now s) = Some msgUnknown
      \<and> error (fetchFinish env cn (Unparsed ok OtherValue) now s) = Some msgUnknown"
    by (simp add: fetchFinish_Rejected fetchFinish_Unparsed isLoading_update_frame catchBlock_error)
  have 3: "message_p p = Some m \<and> m \<noteq> [] \<longrightarrow>
        error (fetchFinish env cn (Resolved False (Obj p)) now s) = Some m"
    by (simp add: fetchFinish_not_ok isLoading_update_frame catchBlock_error notOkError_def)
  have 4: "message_p p = None \<or> message_p p = Some [] \<longrightarrow>
        error (fetchFinish env cn (Resolved False (Obj p)) now s) = Some msgFetchFailed"
    by (auto simp: fetchFinish_not_ok isLoading_update_frame catchBlock_error notOkError_def)
  have 5: "invalidShape d \<longrightarrow>
        error (fetchFinish env cn (Resolved True d) now s) = Some msgInvalidData"
    by (simp add: fetchFinish_invalid isLoading_update_frame invalidData_error)
  have 6: "cn \<noteq> [] \<and> lastFetchedCity s \<noteq> Some cn \<and> map_of (weatherCache s) cn = Some c
        \<and> now - timestamp c < CACHE_DURATION \<and> invalidShape (cached c) \<longrightarrow>
        fetchStart env now cn s = Finished (invalidData s)
        \<and> error (invalidData s) = Some msgInvalidData \<and> collectionsCleared (invalidData s)"
    by (simp add: fetchStart_hit_invalid invalidData_error)
  have 7: "error s = None \<and> error (fetchFinish env cn resp now s) \<noteq> None \<longrightarrow>
        collectionsCleared (fetchFinish env cn resp now s)"
    using fetchFinish_error_cleared by blast
  have 8: "collectionsCleared (fetchFinish env cn (Rejected t) now s)"
    by (simp add: fetchFinish_Rejected isLoading_update_frame catchBlock_error)
  have 9: "collectionsCleared (fetchFinish env cn (Unparsed ok t) now s)"
    by (simp add: fetchFinish_Unparsed isLoading_update_frame catchBlock_error)
  have 10: "collectionsCleared (fetchFinish env cn (Resolved False d) now s)"
    by (simp add: fetchFinish_not_ok isLoading_update_frame catchBlock_error)
  have 11: "invalidShape d \<longrightarrow> collectionsCleared (fetchFinish env cn (Resolved True d) now s)"
    by (simp add: fetchFinish_invalid isLoading_update_frame invalidData_error)
  show ?thesis
    by (rule conjI [OF 1 conjI [OF 2 conjI [OF 3 conjI [OF 4 conjI [OF 5 conjI [OF 6
        conjI [OF 7 conjI [OF 8 conjI [OF 9 conjI [OF 10 11]]]]]]]]]])
qed

text \<open>
  The error body \<open>{message: "city not found"}\<close> with a failing status gives that message
  and empty collections; an invalid body with a success status gives the text for invalid
  data and empty collections; a body that is not JSON gives the parser's message.
\<close>

theorem error_state_message_witness:
  "message_p notFoundPayload = Some ''city not found''
   \<and> error (fetchFinish exampleEnv ''Atlantis'' (Resolved False (Obj notFoundPayload)) 5
        (requested ''Atlantis'' initialState)) = Some ''city not found''
   \<and> collectionsCleared (fetchFinish exampleEnv ''Atlantis'' (Resolved False (Obj notFoundPayload)) 5
        (requested ''Atlantis'' initialState))
   \<and> invalidShape invalidPayload
   \<and> error (fetchFinish exampleEnv ''Atlantis'' (Resolved True invalidPayload) 5
        (requested ''Atlantis'' initialState)) = Some msgInvalidData
   \<and> collectionsCleared (fetchFinish exampleEnv ''Atlantis'' (Resolved True invalidPayload) 5
        (requested ''Atlantis'' initialState))
   \<and> error (fetchFinish exampleEnv ''Atlantis'' unparsedOk 5 (requested ''Atlantis'' initialState))
        = Some ''Unexpected end of JSON input''"
proof -
  let ?s = "requested ''Atlantis'' initialState"
  have m: "message_p notFoundPayload = Some ''city not found''"
    by (simp add: notFoundPayload_def)
  have i: "invalidShape invalidPayload"
    by (simp add: invalidShape_def invalidPayload_def)
  have e: "error ?s = None"
    by (simp add: requested_def)
  note T1 = error_state_message [where env = exampleEnv and cn = "''Atlantis''"
      and m = "''city not found''" and now = 5 and s = ?s
      and p = notFoundPayload and d = "Obj notFoundPayload"
      and resp = "Resolved True invalidPayload"
      and c = "\<lparr>timestamp = 0, cached = Null\<rparr>" and ok = True and t = OtherValue]
  note T2 = error_state_message [where env = exampleEnv and cn = "''Atlantis''"
      and m = "''Unexpected end of JSON input''" and now = 5 and s = ?s
      and p = notFoundPayload and d = invalidPayload
      and resp = "Resolved True invalidPayload"
      and c = "\<lparr>timestamp = 0, cached = Null\<rparr>" and ok = True and t = OtherValue]
  from T1 m have a: "error (fetchFinish exampleEnv ''Atlantis'' (Resolved False (Obj notFoundPayload)) 5 ?s)
        = Some ''city not found''
     \<and> collectionsCleared (fetchFinish exampleEnv ''Atlantis'' (Resolved False (Obj notFoundPayload)) 5 ?s)"
    by simp
  from T2 i have b: "error (fetchFinish exampleEnv ''Atlantis'' (Resolved True invalidPayload) 5 ?s)
        = Some msgInvalidData"
    by simp
  from T2 e b have c: "collectionsCleared (fetchFinish exampleEnv ''Atlantis'' (Resolved True invalidPayload) 5 ?s)"
    by simp
  from T2 have u: "error (fetchFinish exampleEnv ''Atlantis'' unparsedOk 5 ?s)
        = Some ''Unexpected end of JSON input''"
    by (simp add: unparsedOk_def)
  from m i a b c u show ?thesis by simp
qed

text \<open>
  C10, as stated, fails: the response for Paris has a success status, its body does not
  parse, and nothing is stored.
\<close>

theorem unparsed_success_counterexample:
  "snd (fetchWeatherForecast exampleEnv 0 (Unparsed True (ErrorObj ''Unexpected end of JSON input''))
        5 ''Paris'' initialState)
   \<and> weatherCache (fst (fetchWeatherForecast exampleEnv 0
        (Unparsed True (ErrorObj ''Unexpected end of JSON input'')) 5 ''Paris'' initialState)) = []
   \<and> map_of (weatherCache (fst (fetchWeatherForecast exampleEnv 0
        (Unparsed True (ErrorObj ''Unexpected end of JSON input'')) 5 ''Paris'' initialState)))
        ''Paris'' = None"
  by (simp add: afterParis_eq fetchFinish_cache requested_cache initialState_fields)

text \<open>
  C10, amended. A call changes the cache exactly when it reaches the network and the
  response has a success status and a body that parses: a rejection, a body that does not
  parse, a failing status and a call that returns before the request leave the cache as it
  was, and a parsed body with a success status is stored under the city, before and
  whatever the shape check says. A body without list or city is stored like any other and
  the state is the error state. A request for that city within ten minutes that passes
  the guard reprocesses the stored body into the error state; a request repeated directly
  after that fetch issues no network request and leaves the same error state that
  reprocessing gives.
\<close>

theorem cache_iff_success_status:
  "weatherCache (fetchFinish env cn (Rejected t) now s) = weatherCache s
   \<and> weatherCache (fetchFinish env cn (Unparsed ok t) now s) = weatherCache s
   \<and> weatherCache (fetchFinish env cn (Resolved False d) now s) = weatherCache s
   \<and> (\<not> snd (fetchWeatherForecast env tq resp now cn s) \<longrightarrow>
        weatherCache (fst (fetchWeatherForecast env tq resp now cn s)) = weatherCache s)
   \<and> weatherCache (fetchFinish env cn (Resolved True d) now s)
        = mapSet (weatherCache s) cn \<lparr>timestamp = now, cached = d\<rparr>
   \<and> map_of (weatherCache (fetchFinish env cn (Resolved True d) now s)) cn
        = Some \<lparr>timestamp = now, cached = d\<rparr>
   \<and> (invalidShape d \<longrightarrow>
        error (fetchFinish env cn (Resolved True d) now s) = Some msgInvalidData
        \<and> collectionsCleared (fetchFinish env cn (Resolved True d) now s))
   \<and> (cn \<noteq> [] \<and> lastFetchedCity s \<noteq> Some cn \<and> map_of (weatherCache s) cn = Some c
        \<and> tq - timestamp c < CACHE_DURATION \<and> invalidShape (cached c) \<longrightarrow>
        fetchWeatherForecast env tq resp now cn s = (invalidData s, False)
        \<and> error (invalidData s) = Some msgInvalidData \<and> collectionsCleared (invalidData s))
   \<and> (invalidShape d \<and> snd (fetchWeatherForecast env ta (Resolved True d) tb cn sp) \<longrightarrow>
        fetchWeatherForecast env tq resp now cn
            (fst (fetchWeatherForecast env ta (Resolved True d) tb cn sp))
          = (invalidData (fst (fetchWeatherForecast env ta (Resolved True d) tb cn sp)), False)
        \<and> error (fst (fetchWeatherForecast env ta (Resolved True d) tb cn sp)) = Some msgInvalidData
        \<and> collectionsCleared (fst (fetchWeatherForecast env ta (Resolved True d) tb cn sp)))"
proof -
  have 1: "weatherCache (fetchFinish env cn (Rejected t) now s) = weatherCache s"
    by (simp add: fetchFinish_cache)
  have 2: "weatherCache (fetchFinish env cn (Unparsed ok t) now s) = weatherCache s"
    by (simp add: fetchFinish_cache)
  have 3: "weatherCache (fetchFinish env cn (Resolved False d) now s) = weatherCache s"
    by (simp add: fetchFinish_cache)
  have 4: "\<not> snd (fetchWeatherForecast env tq resp now cn s) \<longrightarrow>
        weatherCache (fst (fetchWeatherForecast env tq resp now cn s)) = weatherCache s"
    using forecast_not_Requested by blast
  have 5: "weatherCache (fetchFinish env cn (Resolved True d) now s)
        = mapSet (weatherCache s) cn \<lparr>timestamp = now, cached = d\<rparr>"
    by (simp add: fetchFinish_cache)
  have 6: "map_of (weatherCache (fetchFinish env cn (Resolved True d) now s)) cn
        = Some \<lparr>timestamp = now, cached = d\<rparr>"
    by (simp add: fetchFinish_cache map_of_mapSet)
  have 7: "invalidShape d \<longrightarrow>
        error (fetchFinish env cn (Resolved True d) now s) = Some msgInvalidData
        \<and> collectionsCleared (fetchFinish env cn (Resolved True d) now s)"
    by (simp add: fetchFinish_invalid isLoading_update_frame invalidData_error)
  have 8: "cn \<noteq> [] \<and> lastFetchedCity s \<noteq> Some cn \<and> map_of (weatherCache s) cn = Some c
        \<and> tq - timestamp c < CACHE_DURATION \<and> invalidShape (cached c) \<longrightarrow>
        fetchWeatherForecast env tq resp now cn s = (invalidData s, False)
        \<and> error (invalidData s) = Some msgInvalidData \<and> collectionsCleared (invalidData s)"
    by (simp add: fetchWeatherForecast_def fetchStart_hit_invalid invalidData_error)
  have 9: "invalidShape d \<and> snd (fetchWeatherForecast env ta (Resolved True d) tb cn sp) \<longrightarrow>
        fetchWeatherForecast env tq resp now cn
            (fst (fetchWeatherForecast env ta (Resolved True d) tb cn sp))
          = (invalidData (fst (fetchWeatherForecast env ta (Resolved True d) tb cn sp)), False)
        \<and> error (fst (fetchWeatherForecast env ta (Resolved True d) tb cn sp)) = Some msgInvalidData
        \<and> collectionsCleared (fst (fetchWeatherForecast env ta (Resolved True d) tb cn sp))"
    using forecast_repeat_invalid by blast
  show ?thesis
    by (rule conjI [OF 1 conjI [OF 2 conjI [OF 3 conjI [OF 4 conjI [OF 5 conjI [OF 6
        conjI [OF 7 conjI [OF 8 9]]]]]]]])
qed

text \<open>
  Paris answered with an invalid body. After Berlin was fetched, the request for Paris at
  clock 2000 reprocesses the stored body; repeated directly after its own fetch it is
  suppressed. Both end in the error state.
\<close>

theorem cache_iff_success_status_witness:
  "invalidShape invalidPayload
   \<and> map_of (weatherCache (twoCities (Resolved True invalidPayload) okResponse)) ''Paris''
       = Some \<lparr>timestamp = 5, cached = invalidPayload\<rparr>
   \<and> fetchWeatherForecast exampleEnv 2000 okResponse 2005 ''Paris''
        (twoCities (Resolved True invalidPayload) okResponse)
       = (invalidData (twoCities (Resolved True invalidPayload) okResponse), False)
   \<and> error (invalidData (twoCities (Resolved True invalidPayload) okResponse)) = Some msgInvalidData
   \<and> snd (fetchWeatherForecast exampleEnv 0 (Resolved True invalidPayload) 5 ''Paris'' initialState)
   \<and> fetchWeatherForecast exampleEnv 2000 okResponse 2005 ''Paris''
        (afterParis (Resolved True invalidPayload))
       = (invalidData (afterParis (Resolved True invalidPayload)), False)
   \<and> error (afterParis (Resolved True invalidPayload)) = Some msgInvalidData
   \<and> collectionsCleared (afterParis (Resolved True invalidPayload))"
proof -
  let ?s = "twoCities (Resolved True invalidPayload) okResponse"
  let ?c = "\<lparr>timestamp = 5, cached = invalidPayload\<rparr>"
  have i: "invalidShape invalidPayload"
    by (simp add: invalidShape_def invalidPayload_def)
  have c: "map_of (weatherCache ?s) ''Paris'' = Some ?c"
    and l: "lastFetchedCity ?s = Some ''Berlin''"
    by (simp_all add: okResponse_def twoCities_facts)
  have h: "''Paris'' \<noteq> [] \<and> lastFetchedCity ?s \<noteq> Some ''Paris'' \<and> map_of (weatherCache ?s) ''Paris'' = Some ?c
        \<and> 2000 - timestamp ?c < CACHE_DURATION \<and> invalidShape (cached ?c)"
    using i c l by (simp add: CACHE_DURATION_def)
  have f: "snd (fetchWeatherForecast exampleEnv 0 (Resolved True invalidPayload) 5 ''Paris'' initialState)"
    by (simp add: afterParis_eq)
  note T = cache_iff_success_status [where env = exampleEnv and cn = "''Paris''" and now = 2005
      and s = ?s and tq = 2000 and resp = okResponse and d = invalidPayload and c = ?c
      and t = OtherValue and ok = True and ta = 0 and tb = 5 and sp = initialState]
  from T h have A: "fetchWeatherForecast exampleEnv 2000 okResponse 2005 ''Paris'' ?s
       = (invalidData ?s, False) \<and> error (invalidData ?s) = Some msgInvalidData"
    by simp
  from T i f have B: "fetchWeatherForecast exampleEnv 2000 okResponse 2005 ''Paris''
        (afterParis (Resolved True invalidPayload))
       = (invalidData (afterParis (Resolved True invalidPayload)), False)
     \<and> error (afterParis (Resolved True invalidPayload)) = Some msgInvalidData
     \<and> collectionsCleared (afterParis (Resolved True invalidPayload))"
    by (simp add: afterParis_def)
  from i c A f B show ?thesis by simp
qed

section \<open>A request dropped while another city is on display\<close>

text \<open>
  The path that serves a city from the cache does not assign \<open>lastFetchedCity\<close>, as the
  path over the network does. After Paris, then Berlin (with an invalid body), then Paris
  again from the cache, Berlin is still the last city fetched: a request for Berlin
  returns at the guard, and the entries of Paris stay on display. The statements on
  suppression above are about a request repeated directly after its own fetch, not about
  this state.
\<close>

lemma stale_guard_drops_request:
  "map_of (weatherCache staleState) ''Berlin'' = Some \<lparr>timestamp = 1005, cached = invalidPayload\<rparr>
   \<and> lastFetchedCity staleState = Some ''Berlin''
   \<and> fetchWeatherForecast exampleEnv 3000 okResponse 3005 ''Berlin'' staleState = (staleState, False)
   \<and> completeWeatherData staleState = exampleList"
proof -
  let ?s = "twoCities okResponse (Resolved True invalidPayload)"
  have c: "weatherCache staleState = weatherCache ?s" and l: "lastFetchedCity staleState = lastFetchedCity ?s"
    by (simp_all add: staleState_eq processWeatherData_frame)
  have 1: "map_of (weatherCache staleState) ''Berlin'' = Some \<lparr>timestamp = 1005, cached = invalidPayload\<rparr>"
    by (simp add: c okResponse_def twoCities_facts)
  have 0: "lastFetchedCity staleState = Some ''Berlin''"
    by (simp add: l okResponse_def twoCities_facts)
  have 2: "fetchWeatherForecast exampleEnv 3000 okResponse 3005 ''Berlin'' staleState = (staleState, False)"
    using 0 by (rule forecast_suppressed)
  have 3: "completeWeatherData staleState = exampleList"
    by (simp add: staleState_eq processWeatherData_def examplePayload_def complete_processValid)
  from 1 0 2 3 show ?thesis by simp
qed

section \<open>The sweep of the cache\<close>

lemma mapSet_fresh: "k \<notin> fst ` set m \<Longrightarrow> mapSet m k v = m @ [(k, v)]"
  by (induction m) auto

lemma foldl_mapSet_distinct:
  "distinct (map fst (m @ es)) \<Longrightarrow> foldl (\<lambda>m (k, v). mapSet m k v) m es = m @ es"
proof (induction es arbitrary: m)
  case Nil
  then show ?case by simp
next
  case (Cons e es)
  obtain k v where e: "e = (k, v)" by (cases e)
  from Cons.prems have "k \<notin> fst ` set m" by (auto simp: e)
  then have step: "mapSet m k v = m @ [(k, v)]" by (rule mapSet_fresh)
  from Cons.prems have "distinct (map fst ((m @ [(k, v)]) @ es))" by (simp add: e)
  then have "foldl (\<lambda>m (k, v). mapSet m k v) (m @ [(k, v)]) es = (m @ [(k, v)]) @ es"
    by (rule Cons.IH)
  then show ?case by (simp add: e step)
qed

lemma newMap_distinct: "distinct (map fst es) \<Longrightarrow> newMap es = es"
  using foldl_mapSet_distinct [of "[]" es] by (simp add: newMap_def)

lemma distinct_take_keys: "distinct (map fst es) \<Longrightarrow> distinct (map fst (take n es))"
  by (simp add: take_map [symmetric])

lemma distinct_map_insort:
  "distinct (map g (insort_key f x xs)) \<longleftrightarrow> g x \<notin> g ` set xs \<and> distinct (map g xs)"
  by (induction xs) (auto simp: set_insort_key)

lemma distinct_sort_keys:
  "distinct (map fst es) \<Longrightarrow> distinct (map fst (sort_key f es))"
  by (induction es) (simp_all add: distinct_map_insort)

lemma sorted_take_drop:
  assumes "sorted (map f xs)" "x \<in> set (take n xs)" "y \<in> set (drop n xs)"
  shows "f x \<le> f y"
proof -
  have "sorted (map f (take n xs) @ map f (drop n xs))"
    using assms(1) by (simp add: map_append [symmetric] del: map_append)
  then show ?thesis using assms(2,3) by (auto simp: sorted_append)
qed

lemma exampleCache_sorted:
  "sort_key (\<lambda>(k, c). - timestamp c) exampleCache =
     map (\<lambda>(k, t). (k, \<lparr>timestamp = t, cached = Null\<rparr>))
       [(''Celle'', 110), (''Jena'', 100), (''Gotha'', 90), (''Lahr'', 80), (''Mainz'', 70),
        (''Kiel'', 60), (''Essen'', 50), (''Halle'', 40), (''Aachen'', 30), (''Fulda'', 20),
        (''Bonn'', 10)]"
  by (simp add: exampleCache_def)

text \<open>The cache stays a map: no operation of the component stores a key twice.\<close>

lemma fetchFinish_cache_distinct:
  "distinct (map fst (weatherCache s)) \<Longrightarrow>
   distinct (map fst (weatherCache (fetchFinish env cn resp now s)))"
  by (simp add: fetchFinish_cache mapSet_keys_distinct split: response.splits)

lemma forecast_cache_distinct:
  assumes "distinct (map fst (weatherCache s))"
  shows "distinct (map fst (weatherCache (fst (fetchWeatherForecast env now resp now' cn s))))"
proof (cases "snd (fetchWeatherForecast env now resp now' cn s)")
  case True
  then obtain s1 where S: "fetchStart env now cn s = Requested s1"
    by (auto simp: forecast_network_iff)
  then have "s1 = requested cn s" using fetchStart_Requested by blast
  then have "distinct (map fst (weatherCache s1))"
    using assms by (simp add: requested_cache)
  then show ?thesis
    using S by (simp add: forecast_Requested fetchFinish_cache_distinct)
next
  case False
  then show ?thesis using assms forecast_not_Requested [of env now resp now' cn s] by simp
qed

lemma cleanupCache_cache_distinct:
  assumes "distinct (map fst (weatherCache s))"
  shows "distinct (map fst (weatherCache (cleanupCache s)))"
proof (cases "10 < length (weatherCache s)")
  case True
  have dk: "distinct (map fst (take 5 (sort_key (\<lambda>(k, c). - timestamp c) (weatherCache s))))"
    using assms by (intro distinct_take_keys distinct_sort_keys)
  then show ?thesis using True by (simp add: cleanupCache_def newMap_distinct)
next
  case False
  then show ?thesis using assms by (simp add: cleanupCache_def)
qed

text \<open>
  C5. On a cache (a map: no key twice) of more than ten entries the sweep leaves exactly
  five entries, all of them entries of the cache, and each of them was stored no earlier
  than any entry it removed: the five most recently stored. On a cache of ten entries or
  fewer the sweep changes nothing.
\<close>

theorem cleanupCache_keeps_five_most_recent:
  assumes "distinct (map fst (weatherCache s))"
  shows "(10 < length (weatherCache s) \<longrightarrow>
            length (weatherCache (cleanupCache s)) = 5
          \<and> set (weatherCache (cleanupCache s)) \<subseteq> set (weatherCache s)
          \<and> distinct (map fst (weatherCache (cleanupCache s)))
          \<and> (\<forall>x \<in> set (weatherCache (cleanupCache s)).
               \<forall>y \<in> set (weatherCache s) - set (weatherCache (cleanupCache s)).
                 timestamp (snd y) \<le> timestamp (snd x)))
     \<and> (length (weatherCache s) \<le> 10 \<longrightarrow> cleanupCache s = s)"
proof -
  let ?f = "\<lambda>(k, c). - timestamp c"
  let ?xs = "sort_key ?f (weatherCache s)"
  have dk: "distinct (map fst (take 5 ?xs))"
    using assms by (intro distinct_take_keys distinct_sort_keys)
  have nm: "newMap (take 5 ?xs) = take 5 ?xs"
    using dk by (rule newMap_distinct)
  have small: "cleanupCache s = s" if "length (weatherCache s) \<le> 10"
    using that by (simp add: cleanupCache_def)
  have big: "length (weatherCache (cleanupCache s)) = 5
          \<and> set (weatherCache (cleanupCache s)) \<subseteq> set (weatherCache s)
          \<and> distinct (map fst (weatherCache (cleanupCache s)))
          \<and> (\<forall>x \<in> set (weatherCache (cleanupCache s)).
               \<forall>y \<in> set (weatherCache s) - set (weatherCache (cleanupCache s)).
                 timestamp (snd y) \<le> timestamp (snd x))"
    if len: "10 < length (weatherCache s)"
  proof -
    have C: "weatherCache (cleanupCache s) = take 5 ?xs"
      using len by (simp add: cleanupCache_def nm)
    have 1: "length (take 5 ?xs) = 5" using len by simp
    have 2: "set (take 5 ?xs) \<subseteq> set (weatherCache s)"
      using set_take_subset [of 5 ?xs] by simp
    have srt: "sorted (map ?f ?xs)" by (rule sorted_sort_key)
    have 4: "timestamp (snd y) \<le> timestamp (snd x)"
      if x: "x \<in> set (take 5 ?xs)" and y: "y \<in> set (weatherCache s) - set (take 5 ?xs)" for x y
    proof -
      have "set (weatherCache s) = set (take 5 ?xs) \<union> set (drop 5 ?xs)"
        using set_append [of "take 5 ?xs" "drop 5 ?xs"] by simp
      with y have "y \<in> set (drop 5 ?xs)" by blast
      with srt x have "?f x \<le> ?f y" by (rule sorted_take_drop)
      then show ?thesis by (simp add: case_prod_unfold)
    qed
    from 1 2 dk 4 show ?thesis unfolding C by blast
  qed
  from small big show ?thesis by blast
qed

text \<open>
  Eleven cities stored at the clocks 10 to 110: the sweep keeps those of 110, 100, 90, 80
  and 70. The empty cache is left alone.
\<close>

theorem cleanupCache_keeps_five_most_recent_witness:
  "distinct (map fst (weatherCache (initialState\<lparr>weatherCache := exampleCache\<rparr>)))
   \<and> length (weatherCache (initialState\<lparr>weatherCache := exampleCache\<rparr>)) = 11
   \<and> length (weatherCache (cleanupCache (initialState\<lparr>weatherCache := exampleCache\<rparr>))) = 5
   \<and> map fst (weatherCache (cleanupCache (initialState\<lparr>weatherCache := exampleCache\<rparr>)))
        = [''Celle'', ''Jena'', ''Gotha'', ''Lahr'', ''Mainz'']
   \<and> cleanupCache initialState = initialState"
proof -
  let ?s = "initialState\<lparr>weatherCache := exampleCache\<rparr>"
  have d: "distinct (map fst (weatherCache ?s))"
    by (simp add: exampleCache_def)
  have n: "length (weatherCache ?s) = 11"
    by (simp add: exampleCache_def)
  have d0: "distinct (map fst (weatherCache initialState))"
    by (simp add: initialState_fields)
  from cleanupCache_keeps_five_most_recent [OF d] n
  have 5: "length (weatherCache (cleanupCache ?s)) = 5" by simp
  from cleanupCache_keeps_five_most_recent [OF d0]
  have 0: "cleanupCache initialState = initialState" by (simp add: initialState_fields)
  have n': "length exampleCache = 11"
    by (simp add: exampleCache_def)
  have k: "map fst (weatherCache (cleanupCache ?s)) = [''Celle'', ''Jena'', ''Gotha'', ''Lahr'', ''Mainz'']"
    by (simp add: cleanupCache_def n' exampleCache_sorted newMap_def)
  from d n 5 k 0 show ?thesis by blast
qed

section \<open>Claims about the map component\<close>

lemma getCityName_of_components:
  assumes "geocode (lat @ '','' @ lon) = GeoResolved (GeoObj results)"
  shows "getCityName geocode lat lon
     = nullish (or_else (normalized_city (firstComponents results)) (city (firstComponents results)))
         ''n.V.''"
  using assms by (simp add: getCityName_def Let_def)

text \<open>
  C7, as stated, fails on empty strings, however "present" is read. If a field that is the
  empty string is not present, components with an empty city field and no normalized name
  should resolve to "n.V.": the resolver returns the empty string. If it is present,
  components with an empty normalized name and no city field should resolve to the empty
  string: the resolver returns "n.V.".
\<close>

theorem present_reading_counterexample:
  "edgeGeocode (''1.000'' @ '','' @ ''1.000'') = GeoResolved (GeoObj (Some
      [\<lparr>components = Some \<lparr>normalized_city = None, city = Some []\<rparr>\<rparr>]))
   \<and> getCityName edgeGeocode ''1.000'' ''1.000'' = []
   \<and> [] \<noteq> ''n.V.''
   \<and> edgeGeocode (''2.000'' @ '','' @ ''2.000'') = GeoResolved (GeoObj (Some
      [\<lparr>components = Some \<lparr>normalized_city = Some [], city = None\<rparr>\<rparr>]))
   \<and> getCityName edgeGeocode ''2.000'' ''2.000'' = ''n.V.''
   \<and> ''n.V.'' \<noteq> []"
  by (simp add: edgeGeocode_def getCityName_def firstComponents_def or_else_def nullish_def)

text \<open>
  C7, amended. For a response whose body is a JSON object the resolver takes the
  components of the first result, or empty components when there is no result list, no
  result, or no components in the first result. It returns the normalized city name when
  that is a non-empty string (the test of \<open>||\<close>); otherwise the city field when that is
  not null or undefined, as it is, also when it is the empty string (the test of \<open>??\<close>);
  otherwise "n.V.". Empty components resolve to "n.V.". A request that fails, a body that
  does not parse and a body that is null resolve to "error fetching city name".
\<close>

theorem getCityName_precedence:
  "(geocode (lat @ '','' @ lon) = GeoResolved (GeoObj results) \<longrightarrow>
      (normalized_city (firstComponents results) = Some n \<and> n \<noteq> [] \<longrightarrow>
         getCityName geocode lat lon = n)
    \<and> ((normalized_city (firstComponents results) = None
          \<or> normalized_city (firstComponents results) = Some [])
        \<and> city (firstComponents results) = Some g \<longrightarrow>
         getCityName geocode lat lon = g)
    \<and> ((normalized_city (firstComponents results) = None
          \<or> normalized_city (firstComponents results) = Some [])
        \<and> city (firstComponents results) = None \<longrightarrow>
         getCityName geocode lat lon = ''n.V.''))
   \<and> (geocode (lat @ '','' @ lon) = GeoRejected \<or> geocode (lat @ '','' @ lon) = GeoResolved GeoNull \<longrightarrow>
        getCityName geocode lat lon = ''error fetching city name'')
   \<and> firstComponents (Some (\<lparr>components = Some c\<rparr> # rest)) = c
   \<and> firstComponents (Some (\<lparr>components = None\<rparr> # rest)) = emptyComponents
   \<and> firstComponents (Some []) = emptyComponents
   \<and> firstComponents None = emptyComponents
   \<and> normalized_city emptyComponents = None \<and> city emptyComponents = None"
proof -
  have 1: "geocode (lat @ '','' @ lon) = GeoResolved (GeoObj results) \<longrightarrow>
      (normalized_city (firstComponents results) = Some n \<and> n \<noteq> [] \<longrightarrow>
         getCityName geocode lat lon = n)
    \<and> ((normalized_city (firstComponents results) = None
          \<or> normalized_city (firstComponents results) = Some [])
        \<and> city (firstComponents results) = Some g \<longrightarrow>
         getCityName geocode lat lon = g)
    \<and> ((normalized_city (firstComponents results) = None
          \<or> normalized_city (firstComponents results) = Some [])
        \<and> city (firstComponents results) = None \<longrightarrow>
         getCityName geocode lat lon = ''n.V.'')"
    by (auto simp: getCityName_of_components or_else_def nullish_def)
  have 2: "geocode (lat @ '','' @ lon) = GeoRejected \<or> geocode (lat @ '','' @ lon) = GeoResolved GeoNull \<longrightarrow>
        getCityName geocode lat lon = ''error fetching city name''"
    by (auto simp: getCityName_def)
  have 3: "firstComponents (Some (\<lparr>components = Some c\<rparr> # rest)) = c
   \<and> firstComponents (Some (\<lparr>components = None\<rparr> # rest)) = emptyComponents
   \<and> firstComponents (Some []) = emptyComponents
   \<and> firstComponents None = emptyComponents
   \<and> normalized_city emptyComponents = None \<and> city emptyComponents = None"
    by (simp add: firstComponents_def emptyComponents_def)
  show ?thesis by (rule conjI [OF 1 conjI [OF 2 3]])
qed

text \<open>
  A place with both names resolves to the normalized one, a place with the city field only
  to that field, a point in the ocean, an empty result list and a missing result list to
  "n.V.", a null body and a failed request to the error text.
\<close>

theorem getCityName_precedence_witness:
  "getCityName exampleGeocode ''52.520'' ''13.405'' = ''Berlin''
   \<and> getCityName exampleGeocode ''50.000'' ''8.000'' = ''Mainz''
   \<and> getCityName exampleGeocode ''0.000'' ''-30.000'' = ''n.V.''
   \<and> getCityName edgeGeocode ''3.000'' ''3.000'' = ''n.V.''
   \<and> getCityName edgeGeocode ''4.000'' ''4.000'' = ''n.V.''
   \<and> getCityName edgeGeocode ''5.000'' ''5.000'' = ''error fetching city name''
   \<and> getCityName edgeGeocode ''6.000'' ''6.000'' = ''error fetching city name''"
proof -
  have a: "exampleGeocode (''52.520'' @ '','' @ ''13.405'') = GeoResolved (GeoObj (Some
      [\<lparr>components = Some \<lparr>normalized_city = Some ''Berlin'', city = Some ''Berlin Mitte''\<rparr>\<rparr>]))"
    by (simp add: exampleGeocode_def)
  have b: "exampleGeocode (''50.000'' @ '','' @ ''8.000'') = GeoResolved (GeoObj (Some
      [\<lparr>components = Some \<lparr>normalized_city = None, city = Some ''Mainz''\<rparr>\<rparr>]))"
    by (simp add: exampleGeocode_def)
  have c: "exampleGeocode (''0.000'' @ '','' @ ''-30.000'') = GeoResolved (GeoObj (Some
      [\<lparr>components = Some emptyComponents\<rparr>]))"
    by (simp add: exampleGeocode_def)
  have d: "edgeGeocode (''3.000'' @ '','' @ ''3.000'') = GeoResolved (GeoObj (Some []))"
    by (simp add: edgeGeocode_def)
  have e: "edgeGeocode (''4.000'' @ '','' @ ''4.000'') = GeoResolved (GeoObj None)"
    by (simp add: edgeGeocode_def)
  have f: "edgeGeocode (''5.000'' @ '','' @ ''5.000'') = GeoResolved GeoNull"
    by (simp add: edgeGeocode_def)
  have g: "edgeGeocode (''6.000'' @ '','' @ ''6.000'') = GeoRejected"
    by (simp add: edgeGeocode_def)
  from a getCityName_precedence [where geocode = exampleGeocode and lat = "''52.520''"
      and lon = "''13.405''" and n = "''Berlin''" and g = "''Berlin''"
      and c = "\<lparr>normalized_city = Some ''Berlin'', city = Some ''Berlin Mitte''\<rparr>" and rest = "[]"
      and results = "Some [\<lparr>components = Some \<lparr>normalized_city = Some ''Berlin'',
           city = Some ''Berlin Mitte''\<rparr>\<rparr>]"]
  have 1: "getCityName exampleGeocode ''52.520'' ''13.405'' = ''Berlin''" by simp
  from b getCityName_precedence [where geocode = exampleGeocode and lat = "''50.000''"
      and lon = "''8.000''" and g = "''Mainz''" and n = "''Mainz''"
      and c = "\<lparr>normalized_city = None, city = Some ''Mainz''\<rparr>" and rest = "[]"
      and results = "Some [\<lparr>components = Some \<lparr>normalized_city = None, city = Some ''Mainz''\<rparr>\<rparr>]"]
  have 2: "getCityName exampleGeocode ''50.000'' ''8.000'' = ''Mainz''" by simp
  from c getCityName_precedence [where geocode = exampleGeocode and lat = "''0.000''"
      and lon = "''-30.000''" and c = emptyComponents and rest = "[]"
      and results = "Some [\<lparr>components = Some emptyComponents\<rparr>]"]
  have 3: "getCityName exampleGeocode ''0.000'' ''-30.000'' = ''n.V.''" by simp
  from d getCityName_precedence [where geocode = edgeGeocode and lat = "''3.000''"
      and lon = "''3.000''" and results = "Some []"]
  have 4: "getCityName edgeGeocode ''3.000'' ''3.000'' = ''n.V.''" by simp
  from e getCityName_precedence [where geocode = edgeGeocode and lat = "''4.000''"
      and lon = "''4.000''" and results = "None"]
  have 5: "getCityName edgeGeocode ''4.000'' ''4.000'' = ''n.V.''" by simp
  from f getCityName_precedence [where geocode = edgeGeocode and lat = "''5.000''"
      and lon = "''5.000''"]
  have 6: "getCityName edgeGeocode ''5.000'' ''5.000'' = ''error fetching city name''" by simp
  from g getCityName_precedence [where geocode = edgeGeocode and lat = "''6.000''"
      and lon = "''6.000''"]
  have 7: "getCityName edgeGeocode ''6.000'' ''6.000'' = ''error fetching city name''" by simp
  from 1 2 3 4 5 6 7 show ?thesis by simp
qed

text \<open>
  C8. A click on a point whose spatial reference is not Web Mercator logs one warning and
  leaves the state as it was: latitude and longitude are not assigned, so the watcher does
  not run and the place name stays.
\<close>

theorem non_mercator_click_ignored:
  assumes "\<not> isWebMercator (spatialReference p)"
  shows "onViewClick toFixed3 (Some p) s
           = Inr (s, [Warn ''coordinates spatial reference not WGS84:'' (spatialReference p)])
     \<and> clickEvent toFixed3 geocode (Some p) s
           = Inr (s, [Warn ''coordinates spatial reference not WGS84:'' (spatialReference p)])"
proof -
  have 1: "onViewClick toFixed3 (Some p) s
           = Inr (s, [Warn ''coordinates spatial reference not WGS84:'' (spatialReference p)])"
    using assms by (simp add: onViewClick_def)
  then have 2: "clickEvent toFixed3 geocode (Some p) s
           = Inr (s, [Warn ''coordinates spatial reference not WGS84:'' (spatialReference p)])"
    by (simp add: clickEvent_def)
  from 1 2 show ?thesis by (rule conjI)
qed

text \<open>
  The click in geographic coordinates leaves Mainz on display; the same point marked as
  Web Mercator moves the display to Berlin.
\<close>

theorem non_mercator_click_ignored_witness:
  "clickEvent exampleFixed exampleGeocode (Some geographicPoint) shownState
     = Inr (shownState, [Warn ''coordinates spatial reference not WGS84:''
          \<lparr>isWebMercator = False, wkid = 4326\<rparr>])
   \<and> locationLatitude shownState = Some ''50.000''
   \<and> locationLongitude shownState = Some ''8.000''
   \<and> cityName shownState = Some ''Mainz''
   \<and> clickEvent exampleFixed exampleGeocode
        (Some (geographicPoint\<lparr>spatialReference := \<lparr>isWebMercator = True, wkid = 102100\<rparr>\<rparr>))
        shownState
     = Inr (\<lparr>locationLatitude = Some ''52.520'', locationLongitude = Some ''13.405'',
            cityName = Some ''Berlin''\<rparr>, [])"
proof -
  have h: "\<not> isWebMercator (spatialReference geographicPoint)"
    by (simp add: geographicPoint_def)
  from non_mercator_click_ignored [OF h, of exampleFixed shownState exampleGeocode]
  have 1: "clickEvent exampleFixed exampleGeocode (Some geographicPoint) shownState
     = Inr (shownState, [Warn ''coordinates spatial reference not WGS84:''
          \<lparr>isWebMercator = False, wkid = 4326\<rparr>])"
    by (simp add: geographicPoint_def)
  have 2: "clickEvent exampleFixed exampleGeocode
        (Some (geographicPoint\<lparr>spatialReference := \<lparr>isWebMercator = True, wkid = 102100\<rparr>\<rparr>))
        shownState
     = Inr (\<lparr>locationLatitude = Some ''52.520'', locationLongitude = Some ''13.405'',
            cityName = Some ''Berlin''\<rparr>, [])"
    by (simp add: clickEvent_def onViewClick_def geographicPoint_def shownState_def truthy_num_def
        exampleFixed_def coordinatesWatcher_def truthy_def getCityName_def exampleGeocode_def
        firstComponents_def or_else_def nullish_def)
  from 1 2 show ?thesis by (simp add: shownState_def)
qed

end
